theory Spec2Isabelle
  imports Complex_Main
begin

section \<open>Beta-decay teaching simulation: data model\<close>

text \<open>
  The program computes with single-precision floats (\<open>float\<close>, \<open>sf::Vector2f\<close>).
  They are modelled here by the real numbers: every comparison, guard and branch of the
  source is kept, the decimal literals stand for their decimal values
  (\<open>1e-6f\<close> is \<open>1 / 1000000\<close>, \<open>0.02f\<close> is \<open>1 / 50\<close>), and rounding, infinities and
  NaN are outside the model. \<open>int\<close> fields are \<open>int\<close>.
\<close>

record Vector2f =
  vx :: real
  vy :: real

definition vec :: "real \<Rightarrow> real \<Rightarrow> Vector2f" where
  "vec a b = \<lparr>vx = a, vy = b\<rparr>"

text \<open>The operators of \<open>sf::Vector2f\<close> the program uses: unary minus, sum, difference, scaling.\<close>

definition vneg :: "Vector2f \<Rightarrow> Vector2f" where
  "vneg v = vec (- vx v) (- vy v)"

definition vadd :: "Vector2f \<Rightarrow> Vector2f \<Rightarrow> Vector2f" where
  "vadd a b = vec (vx a + vx b) (vy a + vy b)"

definition vsub :: "Vector2f \<Rightarrow> Vector2f \<Rightarrow> Vector2f" where
  "vsub a b = vec (vx a - vx b) (vy a - vy b)"

definition vscale :: "Vector2f \<Rightarrow> real \<Rightarrow> Vector2f" where
  "vscale v k = vec (vx v * k) (vy v * k)"

definition vlen :: "Vector2f \<Rightarrow> real" where
  "vlen v = sqrt (vx v * vx v + vy v * vy v)"

definition vnorm :: "Vector2f \<Rightarrow> Vector2f" where
  "vnorm v = (let l = vlen v in
     if l \<le> 1 / 1000000 then vec 0 0 else vec (vx v / l) (vy v / l))"

definition vdot :: "Vector2f \<Rightarrow> Vector2f \<Rightarrow> real" where
  "vdot a b = vx a * vx b + vy a * vy b"

definition vperp :: "Vector2f \<Rightarrow> Vector2f" where
  "vperp v = vec (- vy v) (vx v)"

type_synonym Color = "nat \<times> nat \<times> nat \<times> nat"

record Particle =
  name :: string
  pos :: Vector2f
  vel :: Vector2f
  spinDir :: Vector2f
  radius :: real
  color :: Color
  trail :: "Vector2f list"
  trailTimer :: real

record DecayEvent =
  electron :: Particle
  antinu :: Particle
  protonSpinSign :: int
  neutronSpinSign :: int
  L_needed :: int
  timeAlive :: real
  duration :: real

datatype Mode = SpinOnly | SpinAndMotion | FullConservation

definition dist2 :: "Vector2f \<Rightarrow> Vector2f \<Rightarrow> real" where
  "dist2 a b = (let dx = vx a - vx b; dy = vy a - vy b in dx * dx + dy * dy)"

definition hitCircle :: "Vector2f \<Rightarrow> Vector2f \<Rightarrow> real \<Rightarrow> bool" where
  "hitCircle mouse center r \<longleftrightarrow> dist2 mouse center \<le> r * r"

definition clampf :: "real \<Rightarrow> real \<Rightarrow> real \<Rightarrow> real" where
  "clampf v lo hi = (if v < lo then lo else if hi < v then hi else v)"

definition pointSegmentDistance :: "Vector2f \<Rightarrow> Vector2f \<Rightarrow> Vector2f \<Rightarrow> real" where
  "pointSegmentDistance p a b =
     (let ab = vsub b a; ab2 = vdot ab ab in
      if ab2 \<le> 1 / 1000000 then vlen (vsub p a)
      else let t = clampf (vdot (vsub p a) ab / ab2) 0 1;
               proj = vadd a (vscale ab t)
           in vlen (vsub p proj))"

definition signf :: "real \<Rightarrow> int" where
  "signf v = (if v \<ge> 0 then 1 else - 1)"

definition helicitySign :: "Vector2f \<Rightarrow> Vector2f \<Rightarrow> int" where
  "helicitySign spin mom = signf (vdot spin mom)"

section \<open>The decay event generator\<close>

text \<open>
  \<open>makeEvent\<close> draws three values from its generator, in this order: the angle
  (\<open>angleDist\<close>), the handedness draw (\<open>u01\<close>) and the proton bit (\<open>pm01\<close>). The model
  takes the three drawn values as a record, so that a statement for every \<open>Draws\<close> is a
  statement for every state of the generator.
\<close>

record Draws =
  angleDraw :: real
  u01Draw :: real
  pm01Draw :: int

definition newParticle :: Particle where
  "newParticle = \<lparr>name = [], pos = vec 0 0, vel = vec 0 0, spinDir = vec 0 0,
     radius = 8, color = (255, 255, 255, 255), trail = [], trailTimer = 0\<rparr>"

definition newDecayEvent :: DecayEvent where
  "newDecayEvent = \<lparr>electron = newParticle, antinu = newParticle, protonSpinSign = 0,
     neutronSpinSign = 1, L_needed = 0, timeAlive = 0, duration = 3\<rparr>"

definition makeEvent :: "Draws \<Rightarrow> Vector2f \<Rightarrow> real \<Rightarrow> Mode \<Rightarrow> DecayEvent" where
  "makeEvent d origin leftHandBias mode =
     (let ev = newDecayEvent\<lparr>neutronSpinSign := 1\<rparr>;
          a = angleDraw d;
          dirE = vnorm (vec (cos a) (sin a));
          dirNu = vnorm (vneg dirE);
          wantLeft = (u01Draw d < leftHandBias);
          spinE = (if wantLeft then vnorm (vneg dirE) else vnorm dirE);
          spinNu = vnorm dirNu;
          ev = ev\<lparr>electron := (electron ev)\<lparr>name := ''e-'', pos := origin,
                  vel := vscale dirE 260, spinDir := spinE, radius := 8,
                  color := (240, 210, 80, 255)\<rparr>\<rparr>;
          ev = ev\<lparr>antinu := (antinu ev)\<lparr>name := ''anti-nu'', pos := origin,
                  vel := vscale dirNu 260, spinDir := spinNu, radius := 6,
                  color := (120, 190, 255, 255)\<rparr>\<rparr>;
          ev = ev\<lparr>protonSpinSign := (if pm01Draw d \<noteq> 0 then 1 else - 1)\<rparr>;
          ev = (if mode = SpinOnly
                then ev\<lparr>antinu := (antinu ev)\<lparr>spinDir := vnorm (vneg (spinDir (electron ev)))\<rparr>\<rparr>
                else ev);
          sP = protonSpinSign ev;
          sE = (if vy (spinDir (electron ev)) \<ge> 0 then 1 else - 1);
          sN = (if vy (spinDir (antinu ev)) \<ge> 0 then 1 else - 1)
      in ev\<lparr>L_needed := neutronSpinSign ev - (sP + sE + sN)\<rparr>)"

section \<open>Particle integration\<close>

record FloatRect =
  position :: Vector2f
  size_rect :: Vector2f

definition arena :: FloatRect where
  "arena = \<lparr>position = vec 60 60, size_rect = vec 980 580\<rparr>"

definition origin :: Vector2f where
  "origin = vec (vx (position arena) + 140) (vy (position arena) + vy (size_rect arena) * (1 / 2))"

definition protonPos :: Vector2f where
  "protonPos = vec (vx origin + 40) (vy origin)"

text \<open>
  The lambda \<open>stepParticle\<close> of the main loop, with the captured \<open>dt\<close> as its first
  argument. \<open>trail.erase(trail.begin())\<close> runs only on a trail of more than 70 entries,
  so it is \<open>tl\<close> of a non-empty list. The local \<open>top\<close> is written \<open>top'\<close>.
\<close>

definition stepParticle :: "real \<Rightarrow> Particle \<Rightarrow> Particle" where
  "stepParticle dt p0 =
     (if dt \<le> 0 then p0
      else
        let p = p0\<lparr>pos := vadd (pos p0) (vscale (vel p0) dt)\<rparr>;
            p = p\<lparr>trailTimer := trailTimer p + dt\<rparr>;
            p = (if trailTimer p \<ge> 1 / 50
                 then let p = p\<lparr>trailTimer := 0\<rparr>;
                          p = p\<lparr>trail := trail p @ [pos p]\<rparr>
                      in (if length (trail p) > 70 then p\<lparr>trail := tl (trail p)\<rparr> else p)
                 else p);
            left = vx (position arena);
            top' = vy (position arena);
            right = vx (position arena) + vx (size_rect arena);
            bottom = vy (position arena) + vy (size_rect arena);
            p = (if vx (pos p) < left + radius p
                 then p\<lparr>pos := (pos p)\<lparr>vx := left + radius p\<rparr>,
                        vel := (vel p)\<lparr>vx := vx (vel p) * (- 1)\<rparr>\<rparr>
                 else p);
            p = (if vx (pos p) > right - radius p
                 then p\<lparr>pos := (pos p)\<lparr>vx := right - radius p\<rparr>,
                        vel := (vel p)\<lparr>vx := vx (vel p) * (- 1)\<rparr>\<rparr>
                 else p);
            p = (if vy (pos p) < top' + radius p
                 then p\<lparr>pos := (pos p)\<lparr>vy := top' + radius p\<rparr>,
                        vel := (vel p)\<lparr>vy := vy (vel p) * (- 1)\<rparr>\<rparr>
                 else p);
            p = (if vy (pos p) > bottom - radius p
                 then p\<lparr>pos := (pos p)\<lparr>vy := bottom - radius p\<rparr>,
                        vel := (vel p)\<lparr>vy := vy (vel p) * (- 1)\<rparr>\<rparr>
                 else p)
        in p\<lparr>spinDir := vnorm (spinDir p)\<rparr>)"

text \<open>
  The statements of \<open>stepParticle\<close> one by one, named for the proofs: the trail sampling
  after the timer has been advanced, the four boundary tests and the renormalisation.
  Lemma \<open>stepParticle_staged\<close> below shows that \<open>stepParticle\<close> is their composition.
\<close>

definition sampleTrail :: "Particle \<Rightarrow> Particle" where
  "sampleTrail p =
     (if trailTimer p \<ge> 1 / 50
                 then let p = p\<lparr>trailTimer := 0\<rparr>;
                          p = p\<lparr>trail := trail p @ [pos p]\<rparr>
                      in (if length (trail p) > 70 then p\<lparr>trail := tl (trail p)\<rparr> else p)
                 else p)"

definition bounceLeft :: "real \<Rightarrow> Particle \<Rightarrow> Particle" where
  "bounceLeft left p = (if vx (pos p) < left + radius p
                 then p\<lparr>pos := (pos p)\<lparr>vx := left + radius p\<rparr>,
                        vel := (vel p)\<lparr>vx := vx (vel p) * (- 1)\<rparr>\<rparr>
                 else p)"

definition bounceRight :: "real \<Rightarrow> Particle \<Rightarrow> Particle" where
  "bounceRight right p = (if vx (pos p) > right - radius p
                 then p\<lparr>pos := (pos p)\<lparr>vx := right - radius p\<rparr>,
                        vel := (vel p)\<lparr>vx := vx (vel p) * (- 1)\<rparr>\<rparr>
                 else p)"

definition bounceTop :: "real \<Rightarrow> Particle \<Rightarrow> Particle" where
  "bounceTop top' p = (if vy (pos p) < top' + radius p
                 then p\<lparr>pos := (pos p)\<lparr>vy := top' + radius p\<rparr>,
                        vel := (vel p)\<lparr>vy := vy (vel p) * (- 1)\<rparr>\<rparr>
                 else p)"

definition bounceBottom :: "real \<Rightarrow> Particle \<Rightarrow> Particle" where
  "bounceBottom bottom p = (if vy (pos p) > bottom - radius p
                 then p\<lparr>pos := (pos p)\<lparr>vy := bottom - radius p\<rparr>,
                        vel := (vel p)\<lparr>vy := vy (vel p) * (- 1)\<rparr>\<rparr>
                 else p)"

definition renormSpin :: "Particle \<Rightarrow> Particle" where
  "renormSpin p = p\<lparr>spinDir := vnorm (spinDir p)\<rparr>"

text \<open>
  The number of samples a step appends to the trail. The sampling of \<open>stepParticle\<close>
  does not read the trail, so the count is read off the same step run on the particle
  with its trail emptied: there nothing is evicted and the length of the resulting trail
  is the number of \<open>push_back\<close> calls.
\<close>

definition samplesAppended :: "real \<Rightarrow> Particle \<Rightarrow> nat" where
  "samplesAppended dt p = length (trail (stepParticle dt (p\<lparr>trail := []\<rparr>)))"

section \<open>Arrow segments and the orbital swirl\<close>

text \<open>\<open>kind\<close> 0 is a momentum arrow, 1 a spin arrow.\<close>

record Seg =
  seg_a :: Vector2f
  seg_b :: Vector2f
  kind :: int

text \<open>The segments \<open>drawVectors\<close> registers for one particle, in drawing order.\<close>

definition drawVectors :: "Mode \<Rightarrow> Particle \<Rightarrow> Seg list" where
  "drawVectors mode p =
     (let momDir = vnorm (vel p);
          spinD = vnorm (spinDir p)
      in if mode = SpinOnly
         then [\<lparr>seg_a = pos p, seg_b = vadd (pos p) (vscale spinD 55), kind = 1\<rparr>]
         else [\<lparr>seg_a = pos p, seg_b = vadd (pos p) (vscale momDir 60), kind = 0\<rparr>,
               (let off = vscale (vperp momDir) 10;
                    a = vadd (pos p) off
                in \<lparr>seg_a = a, seg_b = vadd a (vscale spinD 48), kind = 1\<rparr>)])"

text \<open>
  \<open>drawOrbitalSwirl\<close> returns the vertices it hands to the renderer, \<open>None\<close> when it
  returns before drawing anything.
\<close>

definition drawOrbitalSwirl :: "Vector2f \<Rightarrow> int \<Rightarrow> real \<Rightarrow> (Vector2f \<times> Color) list option" where
  "drawOrbitalSwirl center L time =
     (let mag = \<bar>L\<bar> in
      if mag = 0 then None
      else
        let baseR = 22;
            r = baseR + real_of_int mag * 10;
            points = 140;
            turns = 2 + (1 / 2) * real_of_int mag;
            phase = time * (22 / 10) * (if L > 0 then 1 else - 1);
            col = (if L = 0 then (120, 220, 140, 130)
                   else (230, 120, 120, nat ((40 + mag * 20) mod 256)))
        in Some (map (\<lambda>i. let a = (real i / real points) * (2 * (31415926 / 10000000)) * turns + phase;
                               rr = r + sin (a * (12 / 10)) * 5
                           in (vec (vx center + cos a * rr) (vy center + sin a * rr), col))
                     [0..<Suc points]))"

section \<open>Tooltips and the hit-test resolver\<close>

record Tooltip =
  tipPos :: Vector2f
  title :: string
  body :: string
  active :: bool

definition newTooltip :: Tooltip where
  "newTooltip = \<lparr>tipPos = vec 0 0, title = [], body = [], active = False\<rparr>"

definition TIP_NEUTRON_TITLE :: string where
  \<open>TIP_NEUTRON_TITLE = ''Neutron''\<close>

definition TIP_NEUTRON_BODY :: string where
  \<open>TIP_NEUTRON_BODY =
     ''This is the neutron before it breaks.\<newline>\<newline>'' @
     ''Think of it like:\<newline>'' @
     ''  - One heavy ball\<newline>'' @
     ''  - Sitting still\<newline>'' @
     ''  - About to split\<newline>\<newline>'' @
     ''It does nothing else here except exist as the starting point.\<newline>'' @
     ''It does not move because we are not teaching neutron motion,\<newline>'' @
     ''only what comes out of it.''\<close>

definition TIP_PROTON_TITLE :: string where
  \<open>TIP_PROTON_TITLE = ''Proton''\<close>

definition TIP_PROTON_BODY :: string where
  \<open>TIP_PROTON_BODY =
     ''This is the proton after the break.\<newline>\<newline>'' @
     ''Think:\<newline>'' @
     ''  - Neutron turns into a proton\<newline>'' @
     ''  - Proton is heavy\<newline>'' @
     ''  - So it barely moves\<newline>\<newline>'' @
     ''In real life it can move, but we keep it still so it doesn't distract you.\<newline>'' @
     ''Red means: the heavy leftover.''\<close>

definition TIP_ELECTRON_TITLE :: string where
  \<open>TIP_ELECTRON_TITLE = ''Electron (e-)''\<close>

definition TIP_ELECTRON_BODY :: string where
  \<open>TIP_ELECTRON_BODY =
     ''This is the electron.\<newline>\<newline>'' @
     ''Think:\<newline>'' @
     ''  - A tiny piece that shoots out fast\<newline>'' @
     ''  - Light\<newline>'' @
     ''  - Easy to move\<newline>\<newline>'' @
     ''The yellow glow just helps your eyes track it.''\<close>

definition TIP_ANTINU_TITLE :: string where
  \<open>TIP_ANTINU_TITLE = ''Anti-neutrino''\<close>

definition TIP_ANTINU_BODY :: string where
  \<open>TIP_ANTINU_BODY =
     ''This is the anti-neutrino.\<newline>\<newline>'' @
     ''Think:\<newline>'' @
     ''  - Even tinier than the electron\<newline>'' @
     ''  - Almost invisible in real life\<newline>'' @
     ''  - Flies off very fast\<newline>\<newline>'' @
     ''It usually goes roughly the opposite way from the electron.''\<close>

definition TIP_MOM_TITLE :: string where
  \<open>TIP_MOM_TITLE = ''Momentum arrow''\<close>

definition TIP_MOM_BODY :: string where
  \<open>TIP_MOM_BODY =
     ''This arrow means:\<newline>'' @
     ''"Which way is this thing moving?"''\<close>

definition TIP_SPIN_TITLE :: string where
  \<open>TIP_SPIN_TITLE = ''Spin arrow''\<close>

definition TIP_SPIN_BODY :: string where
  \<open>TIP_SPIN_BODY =
     ''This arrow means:\<newline>'' @
     ''"Which way is this thing spinning?"\<newline>\<newline>'' @
     ''This is the important one for the misconception.''\<close>

definition TIP_SWIRL_TITLE :: string where
  \<open>TIP_SWIRL_TITLE = ''Swirl (extra angular momentum)''\<close>

definition TIP_SWIRL_BODY :: string where
  \<open>TIP_SWIRL_BODY =
     ''This swirl means:\<newline>'' @
     ''"Something is missing if you only count spins." \<newline>\<newline>'' @
     ''When the spins do not add up, motion must carry the extra turning.\<newline>'' @
     ''No swirl: spins alone work.\<newline>'' @
     ''Swirl: spins alone do not work.''\<close>

definition setTip :: "string \<Rightarrow> string \<Rightarrow> Tooltip \<Rightarrow> Tooltip" where
  "setTip ti bo tip = tip\<lparr>active := True, title := ti, body := bo\<rparr>"

text \<open>The loop over \<open>segs\<close>: the first segment nearer than 8 sets the tooltip and breaks.\<close>

fun hoverArrows :: "Vector2f \<Rightarrow> Seg list \<Rightarrow> Tooltip \<Rightarrow> Tooltip" where
  "hoverArrows mouse [] tip = tip"
| "hoverArrows mouse (s # ss) tip =
     (let d = pointSegmentDistance mouse (seg_a s) (seg_b s) in
      if d < 8
      then (if kind s = 0 then setTip TIP_MOM_TITLE TIP_MOM_BODY tip
            else setTip TIP_SPIN_TITLE TIP_SPIN_BODY tip)
      else hoverArrows mouse ss tip)"

text \<open>
  The hover block of the main loop: body circles, then the swirl ring (mode 3 only), then
  the arrows; the later blocks run only while \<open>tip.active\<close> is still false.
\<close>

definition resolveTooltip :: "Vector2f \<Rightarrow> Mode \<Rightarrow> DecayEvent \<Rightarrow> Seg list \<Rightarrow> Tooltip" where
  "resolveTooltip mouse mode current segs =
     (let tip = newTooltip;
          tip = (if hitCircle mouse origin 24 then setTip TIP_NEUTRON_TITLE TIP_NEUTRON_BODY tip
                 else if hitCircle mouse protonPos 20 then setTip TIP_PROTON_TITLE TIP_PROTON_BODY tip
                 else if hitCircle mouse (pos (electron current)) 18
                   then setTip TIP_ELECTRON_TITLE TIP_ELECTRON_BODY tip
                 else if hitCircle mouse (pos (antinu current)) 16
                   then setTip TIP_ANTINU_TITLE TIP_ANTINU_BODY tip
                 else tip);
          tip = (if \<not> active tip \<and> mode = FullConservation
                 then let d = vlen (vsub mouse origin);
                          targetR = 22 + real_of_int \<bar>L_needed current\<bar> * 10
                      in (if \<bar>d - targetR\<bar> < 14 then setTip TIP_SWIRL_TITLE TIP_SWIRL_BODY tip
                          else tip)
                 else tip)
      in if \<not> active tip then hoverArrows mouse segs tip else tip)"

text \<open>The segments of a frame are those of the electron, then those of the antineutrino.\<close>

definition frameSegs :: "Mode \<Rightarrow> DecayEvent \<Rightarrow> Seg list" where
  "frameSegs mode current = drawVectors mode (electron current) @ drawVectors mode (antinu current)"

definition frameTooltip :: "Vector2f \<Rightarrow> Mode \<Rightarrow> DecayEvent \<Rightarrow> Tooltip" where
  "frameTooltip mouse mode current = resolveTooltip mouse mode current (frameSegs mode current)"

definition frameSwirl :: "Mode \<Rightarrow> DecayEvent \<Rightarrow> real \<Rightarrow> (Vector2f \<times> Color) list option" where
  "frameSwirl mode current time =
     (if mode = FullConservation then drawOrbitalSwirl origin (L_needed current) time else None)"

section \<open>The main loop: control state, input and time\<close>

text \<open>
  The locals of \<open>main\<close> that survive a loop iteration, as one record; the local \<open>t\<close> is
  the field \<open>t_acc\<close>. The generator \<open>rng\<close> is the sequence of draws it will hand to the
  coming calls of \<open>makeEvent\<close>; each call consumes the first.
\<close>

datatype Key = Num1 | Num2 | Num3 | Space | Up | Down | P | N | H | OtherKey

datatype Event = Closed | KeyPressed Key | OtherEvent

record Sim =
  mode :: Mode
  paused :: bool
  stepOnce :: bool
  showHelp :: bool
  leftHandBias :: real
  current :: DecayEvent
  t_acc :: real
  rng :: "nat \<Rightarrow> Draws"
  isOpen :: bool

definition respawn :: "Sim \<Rightarrow> Sim" where
  "respawn s = s\<lparr>current := makeEvent (rng s 0) origin (leftHandBias s) (mode s),
                  rng := (\<lambda>n. rng s (Suc n))\<rparr>"

definition handleEvent :: "Event \<Rightarrow> Sim \<Rightarrow> Sim" where
  "handleEvent e s0 =
     (case e of
        Closed \<Rightarrow> s0\<lparr>isOpen := False\<rparr>
      | OtherEvent \<Rightarrow> s0
      | KeyPressed k \<Rightarrow>
          let s = (if k = Num1 then respawn (s0\<lparr>mode := SpinOnly\<rparr>)
                   else if k = Num2 then respawn (s0\<lparr>mode := SpinAndMotion\<rparr>)
                   else if k = Num3 then respawn (s0\<lparr>mode := FullConservation\<rparr>)
                   else s0)
          in if k = Space then respawn s
             else if k = Up
               then respawn (s\<lparr>leftHandBias := min (99 / 100) (leftHandBias s + 2 / 100)\<rparr>)
             else if k = Down
               then respawn (s\<lparr>leftHandBias := max (1 / 100) (leftHandBias s - 2 / 100)\<rparr>)
             else if k = P then s\<lparr>paused := \<not> paused s\<rparr>
             else if k = N then (if paused s then s\<lparr>stepOnce := True\<rparr> else s)
             else if k = H then s\<lparr>showHelp := \<not> showHelp s\<rparr>
             else s)"

text \<open>The head of the loop body: the frame's \<open>dt\<close> from the wall-clock \<open>dtReal\<close>.\<close>

definition frameDt :: "real \<Rightarrow> Sim \<Rightarrow> real" where
  "frameDt dtReal s = (if paused s then (if stepOnce s then 1 / 60 else 0) else dtReal)"

definition beginFrame :: "real \<Rightarrow> Sim \<Rightarrow> Sim" where
  "beginFrame dtReal s =
     (let s1 = (if paused s \<and> stepOnce s then s\<lparr>stepOnce := False\<rparr> else s)
      in s1\<lparr>t_acc := t_acc s1 + frameDt dtReal s\<rparr>)"

text \<open>Expiry and respawn, then the integration of both particles, for the frame's \<open>dt\<close>.\<close>

definition advance :: "real \<Rightarrow> Sim \<Rightarrow> Sim" where
  "advance dt s0 =
     (let s = (if dt > 0
               then let s1 = s0\<lparr>current := (current s0)\<lparr>timeAlive := timeAlive (current s0) + dt\<rparr>\<rparr>
                    in (if timeAlive (current s1) \<ge> duration (current s1) then respawn s1 else s1)
               else s0);
          s = s\<lparr>current := (current s)\<lparr>electron := stepParticle dt (electron (current s))\<rparr>\<rparr>
      in s\<lparr>current := (current s)\<lparr>antinu := stepParticle dt (antinu (current s))\<rparr>\<rparr>)"

definition frame :: "real \<Rightarrow> Event list \<Rightarrow> Sim \<Rightarrow> Sim" where
  "frame dtReal evs s = advance (frameDt dtReal s) (fold handleEvent evs (beginFrame dtReal s))"

definition initSim :: "(nat \<Rightarrow> Draws) \<Rightarrow> Sim" where
  "initSim g = respawn \<lparr>mode = SpinOnly, paused = False, stepOnce = False, showHelp = True,
     leftHandBias = 85 / 100, current = newDecayEvent, t_acc = 0, rng = g, isOpen = True\<rparr>"

text \<open>
  A sample generator for concrete runs: angle 0, a right-handed electron, and the proton
  bit 1 on the first call and 0 on every later call.
\<close>

definition sampleRng :: "nat \<Rightarrow> Draws" where
  "sampleRng n = \<lparr>angleDraw = 0, u01Draw = 1, pm01Draw = (if n = 0 then 1 else 0)\<rparr>"

section \<open>Vector facts\<close>

lemma vec_sel [simp]: "vx (vec a b) = a" "vy (vec a b) = b"
  by (simp_all add: vec_def)

lemma vec_eq_iff: "vec a b = vec c d \<longleftrightarrow> a = c \<and> b = d"
  by (simp add: vec_def)

lemma vlen_nonneg: "0 \<le> vlen v"
  by (simp add: vlen_def)

lemma vlen_vneg: "vlen (vneg v) = vlen v"
  by (simp add: vlen_def vneg_def)

lemma vnorm_vneg: "vnorm (vneg v) = vneg (vnorm v)"
  by (simp add: vnorm_def Let_def vlen_vneg) (simp add: vneg_def)

lemma vneg_vneg: "vneg (vneg v) = v"
  by (simp add: vneg_def vec_def)

lemma vlen_cos_sin: "vlen (vec (cos a) (sin a)) = 1"
  by (simp add: vlen_def)

lemma vnorm_unit: "vlen v = 1 \<Longrightarrow> vnorm v = v"
  by (simp add: vnorm_def Let_def vec_def)

lemma vlen_vscale: "vlen (vscale v k) = \<bar>k\<bar> * vlen v"
proof -
  have "vx v * k * (vx v * k) + vy v * k * (vy v * k) = k\<^sup>2 * (vx v * vx v + vy v * vy v)"
    by (simp add: power2_eq_square algebra_simps)
  then show ?thesis
    by (simp add: vlen_def vscale_def real_sqrt_mult)
qed

lemma vdot_vneg_self: "vdot v (vneg v) = - (vlen v)\<^sup>2"
proof -
  have "0 \<le> vx v * vx v + vy v * vy v" by simp
  then show ?thesis
    by (simp add: vdot_def vneg_def vlen_def)
qed

lemma vscale_vneg: "vscale (vneg v) k = vneg (vscale v k)"
  by (simp add: vscale_def vneg_def)

lemma vnorm_small: "vlen v \<le> 1 / 1000000 \<Longrightarrow> vnorm v = vec 0 0"
  by (simp add: vnorm_def)

lemma vlen_zero: "vlen (vec 0 0) = 0"
  by (simp add: vlen_def)

lemma vlen_unit_x: "vlen (vec 1 0) = 1"
  by (simp add: vlen_def)

lemma vnorm_zero: "vnorm (vec 0 0) = vec 0 0"
  by (simp add: vnorm_def vlen_zero)

lemma vdot_zero_left: "vdot (vec 0 0) w = 0"
  by (simp add: vdot_def)

lemma vdot_zero_right: "vdot w (vec 0 0) = 0"
  by (simp add: vdot_def)

lemma vlen_vnorm_big: "1 / 1000000 < vlen v \<Longrightarrow> vlen (vnorm v) = 1"
proof -
  assume a: "1 / 1000000 < vlen v"
  let ?s = "vx v * vx v + vy v * vy v"
  have p: "0 < vlen v" using a by simp
  have nn: "0 \<le> ?s" by simp
  have "vx v / vlen v * (vx v / vlen v) + vy v / vlen v * (vy v / vlen v) = ?s / (vlen v)\<^sup>2"
    by (simp add: power2_eq_square add_divide_distrib)
  also have "(vlen v)\<^sup>2 = ?s" using nn by (simp add: vlen_def)
  also have "?s / ?s = 1" using p by (auto simp: vlen_def)
  finally show ?thesis using a by (simp add: vnorm_def Let_def vlen_def[of "vec _ _"])
qed

section \<open>Normalisation and the helicity sign\<close>

text \<open>
  Claim C9. \<open>vnorm\<close> is defined on every vector: a vector of length at most \<open>1e-6\<close>, the
  zero vector among them, is sent to the zero vector, and on every other vector the
  divisor is non-zero and the result has length 1. The helicity sign of the main loop,
  \<open>helicitySign (vnorm spin) (vnorm vel)\<close>, is \<open>+1\<close> when the dot product of the two
  normalised vectors is at least 0 and \<open>-1\<close> otherwise, so a degenerate (zero) spin or
  velocity gives \<open>+1\<close>.
\<close>

theorem vnorm_total_helicity_defined:
  "(vlen v \<le> 1 / 1000000 \<longrightarrow> vnorm v = vec 0 0)
   \<and> vnorm (vec 0 0) = vec 0 0
   \<and> (1 / 1000000 < vlen v \<longrightarrow>
        vlen v \<noteq> 0 \<and> vnorm v = vec (vx v / vlen v) (vy v / vlen v) \<and> vlen (vnorm v) = 1)
   \<and> helicitySign (vnorm s) (vnorm m) = (if vdot (vnorm s) (vnorm m) \<ge> 0 then 1 else - 1)
   \<and> helicitySign (vnorm (vec 0 0)) (vnorm m) = 1
   \<and> helicitySign (vnorm s) (vnorm (vec 0 0)) = 1"
proof -
  have big: "1 / 1000000 < vlen v \<longrightarrow>
        vlen v \<noteq> 0 \<and> vnorm v = vec (vx v / vlen v) (vy v / vlen v) \<and> vlen (vnorm v) = 1"
    using vlen_vnorm_big [of v] by (auto simp: vnorm_def Let_def)
  have hel: "helicitySign (vnorm s) (vnorm m) = (if vdot (vnorm s) (vnorm m) \<ge> 0 then 1 else - 1)"
    by (simp add: helicitySign_def signf_def)
  have z1: "helicitySign (vnorm (vec 0 0)) (vnorm m) = 1"
    by (simp add: helicitySign_def signf_def vnorm_zero vdot_zero_left)
  have z2: "helicitySign (vnorm s) (vnorm (vec 0 0)) = 1"
    by (simp add: helicitySign_def signf_def vnorm_zero vdot_zero_right)
  have small: "vlen v \<le> 1 / 1000000 \<longrightarrow> vnorm v = vec 0 0"
    by (simp add: vnorm_small)
  from small vnorm_zero big hel z1 z2 show ?thesis
    by blast
qed

theorem vnorm_total_helicity_defined_witness:
  "vlen (vec 0 0) \<le> 1 / 1000000 \<and> vnorm (vec 0 0) = vec 0 0
   \<and> 1 / 1000000 < vlen (vec 1 0)
   \<and> vnorm (vec 1 0) = vec (vx (vec 1 0) / vlen (vec 1 0)) (vy (vec 1 0) / vlen (vec 1 0))
   \<and> vlen (vnorm (vec 1 0)) = 1
   \<and> helicitySign (vnorm (vec 0 0)) (vnorm (vec 1 0)) = 1"
proof -
  have h1: "vlen (vec 0 0) \<le> 1 / 1000000" by (simp add: vlen_zero)
  have h2: "1 / 1000000 < vlen (vec 1 0)" by (simp add: vlen_unit_x)
  from h1 h2 vnorm_total_helicity_defined [of "vec 0 0" "vec 0 0" "vec 1 0"]
    vnorm_total_helicity_defined [of "vec 1 0" "vec 0 0" "vec 1 0"]
  show ?thesis by blast
qed

section \<open>Generated events\<close>

lemma dirE_unit: "vnorm (vec (cos a) (sin a)) = vec (cos a) (sin a)"
  by (simp add: vnorm_unit vlen_cos_sin)

lemma vel_electron:
  "vel (electron (makeEvent d og b m)) = vscale (vec (cos (angleDraw d)) (sin (angleDraw d))) 260"
  by (simp add: makeEvent_def Let_def dirE_unit)

lemma vel_antinu:
  "vel (antinu (makeEvent d og b m)) =
     vscale (vneg (vec (cos (angleDraw d)) (sin (angleDraw d)))) 260"
  by (simp add: makeEvent_def Let_def dirE_unit vnorm_vneg)

lemma spin_electron:
  "spinDir (electron (makeEvent d og b m)) =
     (if u01Draw d < b then vneg (vec (cos (angleDraw d)) (sin (angleDraw d)))
      else vec (cos (angleDraw d)) (sin (angleDraw d)))"
  by (simp add: makeEvent_def Let_def dirE_unit vnorm_vneg)

lemma spin_antinu:
  "spinDir (antinu (makeEvent d og b m)) =
     (if m = SpinOnly then vneg (spinDir (electron (makeEvent d og b m)))
      else vneg (vec (cos (angleDraw d)) (sin (angleDraw d))))"
  by (simp add: makeEvent_def Let_def dirE_unit vnorm_vneg vneg_vneg)

lemma vlen_spin_electron: "vlen (spinDir (electron (makeEvent d og b m))) = 1"
  by (simp add: spin_electron vlen_vneg vlen_cos_sin)

lemma makeEvent_signs:
  "neutronSpinSign (makeEvent d og b m) = 1"
  "protonSpinSign (makeEvent d og b m) = (if pm01Draw d \<noteq> 0 then 1 else - 1)"
  by (simp_all add: makeEvent_def Let_def newDecayEvent_def)

lemma makeEvent_L_needed:
  "L_needed (makeEvent d og b m) =
     neutronSpinSign (makeEvent d og b m)
       - (protonSpinSign (makeEvent d og b m)
          + signf (vy (spinDir (electron (makeEvent d og b m))))
          + signf (vy (spinDir (antinu (makeEvent d og b m)))))"
  by (simp add: makeEvent_def Let_def signf_def newDecayEvent_def)

text \<open>
  Claim C4. In every generated event, whatever the draws, the origin, the bias and the
  mode, the antineutrino's velocity is the negation of the electron's velocity, both
  velocities have magnitude 260, and the antineutrino's momentum direction (its normalised
  velocity) is the negation of the electron's.
\<close>

theorem makeEvent_back_to_back:
  "vel (antinu (makeEvent d og b m)) = vneg (vel (electron (makeEvent d og b m)))
   \<and> vlen (vel (electron (makeEvent d og b m))) = 260
   \<and> vlen (vel (antinu (makeEvent d og b m))) = 260
   \<and> vnorm (vel (antinu (makeEvent d og b m))) = vneg (vnorm (vel (electron (makeEvent d og b m))))"
  by (simp add: vel_electron vel_antinu vscale_vneg vlen_vneg vlen_vscale vlen_cos_sin vnorm_vneg)

text \<open>
  Claim C1. In every event generated in mode \<open>SpinOnly\<close>, whatever the draws (so whichever
  helicity was sampled), the antineutrino's spin direction is the negation of the
  electron's, and the dot product of the two normalised spin directions is \<open>-1\<close>.
\<close>

theorem spinOnly_forced_opposition:
  "spinDir (antinu (makeEvent d og b SpinOnly)) = vneg (spinDir (electron (makeEvent d og b SpinOnly)))
   \<and> vdot (vnorm (spinDir (electron (makeEvent d og b SpinOnly))))
          (vnorm (spinDir (antinu (makeEvent d og b SpinOnly)))) = - 1"
proof -
  let ?e = "spinDir (electron (makeEvent d og b SpinOnly))"
  have n: "spinDir (antinu (makeEvent d og b SpinOnly)) = vneg ?e"
    by (simp add: spin_antinu)
  have u: "vlen ?e = 1" by (rule vlen_spin_electron)
  have "vdot (vnorm ?e) (vnorm (vneg ?e)) = - 1"
    using u by (simp add: vnorm_vneg vnorm_unit vdot_vneg_self)
  with n show ?thesis by simp
qed

text \<open>
  Claim C2. In every generated event the orbital term \<open>L_needed\<close> is
  \<open>neutronSpinSign - (protonSpinSign + sign (electron spin y) + sign (antineutrino spin y))\<close>,
  with \<open>sign\<close> the function \<open>signf\<close> (\<open>+1\<close> from 0 upwards, \<open>-1\<close> below), read from the spin
  directions the event ends up with, after the \<open>SpinOnly\<close> override. When the proton sign
  is \<open>+1\<close> and both spin y-components are non-negative, \<open>L_needed\<close> is \<open>-2\<close>.
\<close>

theorem makeEvent_orbital_deficit:
  "(let ev = makeEvent d og b m in
      L_needed ev = neutronSpinSign ev
        - (protonSpinSign ev + signf (vy (spinDir (electron ev))) + signf (vy (spinDir (antinu ev))))
      \<and> (protonSpinSign ev = 1 \<and> 0 \<le> vy (spinDir (electron ev)) \<and> 0 \<le> vy (spinDir (antinu ev))
           \<longrightarrow> L_needed ev = - 2))"
proof -
  let ?ev = "makeEvent d og b m"
  have f: "L_needed ?ev = neutronSpinSign ?ev
        - (protonSpinSign ?ev + signf (vy (spinDir (electron ?ev))) + signf (vy (spinDir (antinu ?ev))))"
    by (rule makeEvent_L_needed)
  have "protonSpinSign ?ev = 1 \<and> 0 \<le> vy (spinDir (electron ?ev)) \<and> 0 \<le> vy (spinDir (antinu ?ev))
           \<longrightarrow> L_needed ?ev = - 2"
    by (simp add: f makeEvent_signs(1) signf_def)
  with f show ?thesis by (simp add: Let_def)
qed

theorem makeEvent_orbital_deficit_witness:
  "(let ev = makeEvent \<lparr>angleDraw = 0, u01Draw = 1, pm01Draw = 1\<rparr> origin (85 / 100) FullConservation in
      protonSpinSign ev = 1 \<and> 0 \<le> vy (spinDir (electron ev)) \<and> 0 \<le> vy (spinDir (antinu ev))
      \<and> L_needed ev = - 2)"
proof -
  let ?ev = "makeEvent \<lparr>angleDraw = 0, u01Draw = 1, pm01Draw = 1\<rparr> origin (85 / 100) FullConservation"
  have h: "protonSpinSign ?ev = 1 \<and> 0 \<le> vy (spinDir (electron ?ev)) \<and> 0 \<le> vy (spinDir (antinu ?ev))"
    by (simp add: makeEvent_signs spin_electron spin_antinu vneg_def)
  from h makeEvent_orbital_deficit
    [of "\<lparr>angleDraw = 0, u01Draw = 1, pm01Draw = 1\<rparr>" origin "85 / 100" FullConservation]
  show ?thesis unfolding Let_def by blast
qed

section \<open>Facts about the particle step\<close>

lemma arena_bounds:
  "vx (position arena) = 60" "vy (position arena) = 60"
  "vx (size_rect arena) = 980" "vy (size_rect arena) = 580"
  by (simp_all add: arena_def)

lemma stepParticle_staged:
  "stepParticle dt p =
     (if dt \<le> 0 then p
      else renormSpin (bounceBottom 640 (bounceTop 60 (bounceRight 1040 (bounceLeft 60
             (sampleTrail (p\<lparr>pos := vadd (pos p) (vscale (vel p) dt),
                              trailTimer := trailTimer p + dt\<rparr>)))))))"
  unfolding stepParticle_def
  apply (fold sampleTrail_def bounceLeft_def bounceRight_def bounceTop_def bounceBottom_def renormSpin_def)
  apply (simp only: Let_def arena_bounds)
  apply simp
  done

lemma sampleTrail_fields:
  "pos (sampleTrail p) = pos p" "vel (sampleTrail p) = vel p" "radius (sampleTrail p) = radius p"
  by (simp_all add: sampleTrail_def Let_def)

lemma bounce_radius:
  "radius (bounceLeft b p) = radius p" "radius (bounceRight b p) = radius p"
  "radius (bounceTop b p) = radius p" "radius (bounceBottom b p) = radius p"
  by (simp_all add: bounceLeft_def bounceRight_def bounceTop_def bounceBottom_def)

lemma bounce_trail:
  "trail (bounceLeft b p) = trail p" "trail (bounceRight b p) = trail p"
  "trail (bounceTop b p) = trail p" "trail (bounceBottom b p) = trail p"
  "trail (renormSpin p) = trail p"
  by (simp_all add: bounceLeft_def bounceRight_def bounceTop_def bounceBottom_def renormSpin_def)

lemma bounce_trailTimer:
  "trailTimer (bounceLeft b p) = trailTimer p" "trailTimer (bounceRight b p) = trailTimer p"
  "trailTimer (bounceTop b p) = trailTimer p" "trailTimer (bounceBottom b p) = trailTimer p"
  "trailTimer (renormSpin p) = trailTimer p"
  by (simp_all add: bounceLeft_def bounceRight_def bounceTop_def bounceBottom_def renormSpin_def)

lemma bounce_x_other:
  "vx (pos (bounceTop b p)) = vx (pos p)" "vx (pos (bounceBottom b p)) = vx (pos p)"
  "vx (vel (bounceTop b p)) = vx (vel p)" "vx (vel (bounceBottom b p)) = vx (vel p)"
  by (simp_all add: bounceTop_def bounceBottom_def)

lemma bounce_y_other:
  "vy (pos (bounceLeft b p)) = vy (pos p)" "vy (pos (bounceRight b p)) = vy (pos p)"
  "vy (vel (bounceLeft b p)) = vy (vel p)" "vy (vel (bounceRight b p)) = vy (vel p)"
  by (simp_all add: bounceLeft_def bounceRight_def)

lemma renormSpin_fields:
  "pos (renormSpin p) = pos p" "vel (renormSpin p) = vel p" "radius (renormSpin p) = radius p"
  by (simp_all add: renormSpin_def)

lemma step_radius: "radius (stepParticle dt p) = radius p"
  by (simp add: stepParticle_staged renormSpin_fields bounce_radius sampleTrail_fields)

lemma step_trail:
  "0 < dt \<Longrightarrow> trail (stepParticle dt p) =
     (if 1 / 50 \<le> trailTimer p + dt
      then (if 70 \<le> length (trail p)
            then tl (trail p @ [vadd (pos p) (vscale (vel p) dt)])
            else trail p @ [vadd (pos p) (vscale (vel p) dt)])
      else trail p)"
  by (simp add: stepParticle_staged bounce_trail) (simp add: sampleTrail_def Let_def)

lemma step_trailTimer:
  "0 < dt \<Longrightarrow> trailTimer (stepParticle dt p) =
     (if 1 / 50 \<le> trailTimer p + dt then 0 else trailTimer p + dt)"
  by (simp add: stepParticle_staged bounce_trailTimer) (simp add: sampleTrail_def Let_def)

lemma step_x:
  assumes "0 < dt"
  shows "vx (pos (stepParticle dt p)) =
     (if 1040 - radius p < (if vx (pos p) + vx (vel p) * dt < 60 + radius p
                            then 60 + radius p else vx (pos p) + vx (vel p) * dt)
      then 1040 - radius p
      else if vx (pos p) + vx (vel p) * dt < 60 + radius p
           then 60 + radius p else vx (pos p) + vx (vel p) * dt)"
    and "vx (vel (stepParticle dt p)) =
     (if 1040 - radius p < (if vx (pos p) + vx (vel p) * dt < 60 + radius p
                            then 60 + radius p else vx (pos p) + vx (vel p) * dt)
      then - (if vx (pos p) + vx (vel p) * dt < 60 + radius p then - vx (vel p) else vx (vel p))
      else if vx (pos p) + vx (vel p) * dt < 60 + radius p then - vx (vel p) else vx (vel p))"
  using assms
  by (simp_all add: stepParticle_staged renormSpin_fields bounce_x_other)
     (simp_all add: bounceRight_def bounceLeft_def sampleTrail_fields vadd_def vscale_def)

lemma step_y:
  assumes "0 < dt"
  shows "vy (pos (stepParticle dt p)) =
     (if 640 - radius p < (if vy (pos p) + vy (vel p) * dt < 60 + radius p
                            then 60 + radius p else vy (pos p) + vy (vel p) * dt)
      then 640 - radius p
      else if vy (pos p) + vy (vel p) * dt < 60 + radius p
           then 60 + radius p else vy (pos p) + vy (vel p) * dt)"
    and "vy (vel (stepParticle dt p)) =
     (if 640 - radius p < (if vy (pos p) + vy (vel p) * dt < 60 + radius p
                            then 60 + radius p else vy (pos p) + vy (vel p) * dt)
      then - (if vy (pos p) + vy (vel p) * dt < 60 + radius p then - vy (vel p) else vy (vel p))
      else if vy (pos p) + vy (vel p) * dt < 60 + radius p then - vy (vel p) else vy (vel p))"
  using assms
  by (simp_all add: stepParticle_staged renormSpin_fields)
     (simp_all add: bounceTop_def bounceBottom_def bounce_radius bounce_y_other sampleTrail_fields vadd_def vscale_def)

lemma fresh_particles:
  "pos (electron (makeEvent d og b m)) = og" "pos (antinu (makeEvent d og b m)) = og"
  "radius (electron (makeEvent d og b m)) = 8" "radius (antinu (makeEvent d og b m)) = 6"
  "trail (electron (makeEvent d og b m)) = []" "trail (antinu (makeEvent d og b m)) = []"
  "trailTimer (electron (makeEvent d og b m)) = 0" "trailTimer (antinu (makeEvent d og b m)) = 0"
  by (simp_all add: makeEvent_def Let_def newDecayEvent_def newParticle_def)

lemma makeEvent_time:
  "timeAlive (makeEvent d og b m) = 0" "duration (makeEvent d og b m) = 3"
  by (simp_all add: makeEvent_def Let_def newDecayEvent_def)

lemma step_nonpos: "dt \<le> 0 \<Longrightarrow> stepParticle dt p = p"
  by (simp add: stepParticle_def)

lemma step_trail_le: "length (trail p) \<le> 70 \<Longrightarrow> length (trail (stepParticle dt p)) \<le> 70"
  by (cases "0 < dt") (simp_all add: step_trail step_nonpos)

lemma fold_step_trail_le:
  "length (trail p) \<le> 70 \<Longrightarrow> length (trail (fold stepParticle dts p)) \<le> 70"
  by (induction dts arbitrary: p) (simp_all add: step_trail_le)

section \<open>The particle stays inside the arena\<close>

text \<open>
  Claim C5. After a call of \<open>stepParticle\<close> with \<open>dt > 0\<close>, for every starting position
  and velocity, the position lies in
  \<open>[left + radius, right - radius] \<times> [top + radius, bottom - radius]\<close> of the arena. A
  coordinate that the move \<open>pos + vel * dt\<close> takes out of its interval is set to the
  boundary it crossed and the velocity component of that axis is negated; a coordinate
  inside the interval is kept with its velocity. Each axis depends on its own coordinate
  only. The radius is a field of the particle: the intervals are non-empty when it is at
  most 290 (half the arena's height), as the radii 8 and 6 of the generated particles are.
\<close>

theorem stepParticle_in_arena:
  assumes "0 < dt" and "radius p \<le> 290"
  shows "(let q = stepParticle dt p;
              left = vx (position arena); top' = vy (position arena);
              right = vx (position arena) + vx (size_rect arena);
              bottom = vy (position arena) + vy (size_rect arena);
              nx = vx (pos p) + vx (vel p) * dt;
              ny = vy (pos p) + vy (vel p) * dt
          in left + radius p \<le> vx (pos q) \<and> vx (pos q) \<le> right - radius p
           \<and> top' + radius p \<le> vy (pos q) \<and> vy (pos q) \<le> bottom - radius p
           \<and> vx (pos q) = (if nx < left + radius p then left + radius p
                            else if nx > right - radius p then right - radius p else nx)
           \<and> vx (vel q) = (if nx < left + radius p \<or> nx > right - radius p
                            then - vx (vel p) else vx (vel p))
           \<and> vy (pos q) = (if ny < top' + radius p then top' + radius p
                            else if ny > bottom - radius p then bottom - radius p else ny)
           \<and> vy (vel q) = (if ny < top' + radius p \<or> ny > bottom - radius p
                            then - vy (vel p) else vy (vel p)))"
proof -
  note sx = step_x [OF assms(1), of p] and sy = step_y [OF assms(1), of p]
  have x1: "60 + radius p \<le> vx (pos (stepParticle dt p))"
    and x2: "vx (pos (stepParticle dt p)) \<le> 1040 - radius p"
    using assms(2) by (simp_all add: sx(1))
  have y1: "60 + radius p \<le> vy (pos (stepParticle dt p))"
    and y2: "vy (pos (stepParticle dt p)) \<le> 640 - radius p"
    using assms(2) by (simp_all add: sy(1))
  have xp: "vx (pos (stepParticle dt p)) =
      (if vx (pos p) + vx (vel p) * dt < 60 + radius p then 60 + radius p
       else if vx (pos p) + vx (vel p) * dt > 1040 - radius p then 1040 - radius p
       else vx (pos p) + vx (vel p) * dt)"
    using assms(2) by (simp add: sx(1))
  have xv: "vx (vel (stepParticle dt p)) =
      (if vx (pos p) + vx (vel p) * dt < 60 + radius p \<or> vx (pos p) + vx (vel p) * dt > 1040 - radius p
       then - vx (vel p) else vx (vel p))"
    using assms(2) by (simp add: sx(2))
  have yp: "vy (pos (stepParticle dt p)) =
      (if vy (pos p) + vy (vel p) * dt < 60 + radius p then 60 + radius p
       else if vy (pos p) + vy (vel p) * dt > 640 - radius p then 640 - radius p
       else vy (pos p) + vy (vel p) * dt)"
    using assms(2) by (simp add: sy(1))
  have yv: "vy (vel (stepParticle dt p)) =
      (if vy (pos p) + vy (vel p) * dt < 60 + radius p \<or> vy (pos p) + vy (vel p) * dt > 640 - radius p
       then - vy (vel p) else vy (vel p))"
    using assms(2) by (simp add: sy(2))
  show ?thesis
    unfolding Let_def arena_bounds
    using x1 x2 y1 y2 xp xv yp yv by simp
qed

theorem stepParticle_in_arena_witness:
  "(let p = electron (makeEvent \<lparr>angleDraw = 0, u01Draw = 1, pm01Draw = 1\<rparr> origin (85 / 100) SpinOnly);
        q = stepParticle 10 p
    in (0::real) < 10 \<and> radius p \<le> 290 \<and> pos p = vec 200 350 \<and> vel p = vec 260 0
       \<and> vx (pos q) = 1032 \<and> vy (pos q) = 350 \<and> vx (vel q) = - 260 \<and> vy (vel q) = 0)"
proof -
  let ?p = "electron (makeEvent \<lparr>angleDraw = 0, u01Draw = 1, pm01Draw = 1\<rparr> origin (85 / 100) SpinOnly)"
  have h1: "(0::real) < 10" by simp
  have h2: "radius ?p \<le> 290" by (simp add: fresh_particles)
  have f: "pos ?p = vec 200 350" "vel ?p = vec 260 0" "radius ?p = 8"
    by (simp_all add: fresh_particles vel_electron origin_def arena_def vscale_def)
  from stepParticle_in_arena [OF h1 h2] h2 f show ?thesis
    unfolding Let_def by (simp add: arena_def)
qed

section \<open>The trail\<close>

text \<open>
  Claim C6. A step keeps a trail of at most 70 samples at most 70 samples long, so the
  trail of a generated particle (empty at first) never exceeds 70 samples, whatever the
  sequence of steps. When a step samples a trail that already holds 70 entries, the
  oldest (first) entry is dropped and the new position is appended at the end, the
  remaining entries keeping their order; below the cap the new position is appended; a
  step that does not sample leaves the trail as it is. The sample is the position after
  the move and before the boundary tests.
\<close>

theorem trail_capped_fifo:
  "(length (trail p) \<le> 70 \<longrightarrow> length (trail (stepParticle dt p)) \<le> 70)
   \<and> length (trail (fold stepParticle dts (electron (makeEvent d og b m)))) \<le> 70
   \<and> length (trail (fold stepParticle dts (antinu (makeEvent d og b m)))) \<le> 70
   \<and> (0 < dt \<and> 1 / 50 \<le> trailTimer p + dt \<and> length (trail p) = 70 \<longrightarrow>
        trail (stepParticle dt p) = tl (trail p) @ [vadd (pos p) (vscale (vel p) dt)])
   \<and> (0 < dt \<and> 1 / 50 \<le> trailTimer p + dt \<and> length (trail p) < 70 \<longrightarrow>
        trail (stepParticle dt p) = trail p @ [vadd (pos p) (vscale (vel p) dt)])
   \<and> (dt \<le> 0 \<or> trailTimer p + dt < 1 / 50 \<longrightarrow> trail (stepParticle dt p) = trail p)"
proof -
  have a: "length (trail p) \<le> 70 \<longrightarrow> length (trail (stepParticle dt p)) \<le> 70"
    by (simp add: step_trail_le)
  have b: "length (trail (fold stepParticle dts (electron (makeEvent d og b m)))) \<le> 70"
    by (rule fold_step_trail_le) (simp add: fresh_particles)
  have c: "length (trail (fold stepParticle dts (antinu (makeEvent d og b m)))) \<le> 70"
    by (rule fold_step_trail_le) (simp add: fresh_particles)
  have e: "0 < dt \<and> 1 / 50 \<le> trailTimer p + dt \<and> length (trail p) = 70 \<longrightarrow>
        trail (stepParticle dt p) = tl (trail p) @ [vadd (pos p) (vscale (vel p) dt)]"
  proof (intro impI, elim conjE)
    assume h: "0 < dt" "1 / 50 \<le> trailTimer p + dt" "length (trail p) = 70"
    then have "trail p \<noteq> []" by auto
    with h show "trail (stepParticle dt p) = tl (trail p) @ [vadd (pos p) (vscale (vel p) dt)]"
      by (simp add: step_trail)
  qed
  have f: "0 < dt \<and> 1 / 50 \<le> trailTimer p + dt \<and> length (trail p) < 70 \<longrightarrow>
        trail (stepParticle dt p) = trail p @ [vadd (pos p) (vscale (vel p) dt)]"
    by (simp add: step_trail)
  have g: "dt \<le> 0 \<or> trailTimer p + dt < 1 / 50 \<longrightarrow> trail (stepParticle dt p) = trail p"
    by (cases "0 < dt") (auto simp: step_trail step_nonpos)
  from a b c e f g show ?thesis by blast
qed

theorem trail_capped_fifo_witness:
  "(let full = newParticle\<lparr>trail := map (\<lambda>i. vec (real i) 0) [0..<70]\<rparr>;
        part = newParticle\<lparr>trail := [vec 1 1]\<rparr>
    in length (trail full) = 70 \<and> (0::real) < 1 / 50 \<and> 1 / 50 \<le> trailTimer full + 1 / 50
       \<and> length (trail (stepParticle (1 / 50) full)) \<le> 70
       \<and> trail (stepParticle (1 / 50) full) = map (\<lambda>i. vec (real i) 0) [1..<70] @ [vec 0 0]
       \<and> length (trail part) < 70
       \<and> trail (stepParticle (1 / 50) part) = [vec 1 1, vec 0 0]
       \<and> trailTimer part + 1 / 100 < 1 / 50
       \<and> trail (stepParticle (1 / 100) part) = [vec 1 1])"
proof -
  let ?full = "newParticle\<lparr>trail := map (\<lambda>i. vec (real i) 0) [0..<70]\<rparr>"
  let ?part = "newParticle\<lparr>trail := [vec 1 1]\<rparr>"
  have h1: "length (trail ?full) = 70" by simp
  have h2: "(0::real) < 1 / 50 \<and> 1 / 50 \<le> trailTimer ?full + 1 / 50"
    by (simp add: newParticle_def)
  have h3: "length (trail ?part) < 70" "1 / 50 \<le> trailTimer ?part + 1 / 50"
    "trailTimer ?part + 1 / 100 < 1 / 50"
    by (simp_all add: newParticle_def)
  have t: "tl (map (\<lambda>i. vec (real i) 0) [0..<70]) = map (\<lambda>i. vec (real i) 0) [1..<70]"
    by (simp add: upt_conv_Cons [of 0 70] del: upt_Suc)
  have z: "vadd (pos ?full) (vscale (vel ?full) (1 / 50)) = vec 0 0"
    "vadd (pos ?part) (vscale (vel ?part) (1 / 50)) = vec 0 0"
    by (simp_all add: newParticle_def vadd_def vscale_def)
  from h1 h2 h3 t z
    trail_capped_fifo [of ?full "1 / 50" "[]" "\<lparr>angleDraw = 0, u01Draw = 1, pm01Draw = 1\<rparr>" origin "85 / 100" SpinOnly]
    trail_capped_fifo [of ?part "1 / 50" "[]" "\<lparr>angleDraw = 0, u01Draw = 1, pm01Draw = 1\<rparr>" origin "85 / 100" SpinOnly]
    trail_capped_fifo [of ?part "1 / 100" "[]" "\<lparr>angleDraw = 0, u01Draw = 1, pm01Draw = 1\<rparr>" origin "85 / 100" SpinOnly]
  show ?thesis unfolding Let_def by (simp del: upt_Suc)
qed

text \<open>
  Claim C8, as stated, fails: the gate resets the timer to 0 and a step appends at most one
  sample. From a fresh electron (empty trail, timer 0), two steps of 0.02 s append two
  samples, one step of 0.04 s appends one.
\<close>

theorem trail_sampling_split_counterexample:
  "length (trail (stepParticle (1 / 50) (stepParticle (1 / 50)
       (electron (makeEvent \<lparr>angleDraw = 0, u01Draw = 1, pm01Draw = 1\<rparr> origin (85 / 100) SpinOnly)))))
     \<noteq> length (trail (stepParticle (1 / 50 + 1 / 50)
       (electron (makeEvent \<lparr>angleDraw = 0, u01Draw = 1, pm01Draw = 1\<rparr> origin (85 / 100) SpinOnly))))
   \<and> length (trail (stepParticle (1 / 50) (stepParticle (1 / 50)
       (electron (makeEvent \<lparr>angleDraw = 0, u01Draw = 1, pm01Draw = 1\<rparr> origin (85 / 100) SpinOnly)))))
     = 2
   \<and> length (trail (stepParticle (1 / 50 + 1 / 50)
       (electron (makeEvent \<lparr>angleDraw = 0, u01Draw = 1, pm01Draw = 1\<rparr> origin (85 / 100) SpinOnly))))
     = 1"
  by (simp add: step_trail step_trailTimer fresh_particles)

text \<open>
  Claim C8, amended. Trail sampling is gated by simulated time: a step with \<open>dt > 0\<close> adds
  \<open>dt\<close> to the timer and appends exactly one sample when the timer has then reached
  0.02 s, resetting it to 0, and none otherwise; the appended sample is the new last entry
  of the trail (the oldest entry is dropped when the trail would exceed 70). So the number
  of samples appended over a span depends on how the span is divided: in exact arithmetic,
  integrating by \<open>dt1\<close> and then by \<open>dt2\<close> appends as many samples as integrating once by
  \<open>dt1 + dt2\<close>, except when both steps pass the gate on their own (the timer reaches
  0.02 s within \<open>dt1\<close> and \<open>dt2\<close> is at least 0.02 s): then the two steps append two
  samples and the single step one. This holds for every trail, full or not.
\<close>

theorem trail_sampling_split:
  assumes "0 < dt1" and "0 < dt2"
  shows "samplesAppended dt1 p = (if 1 / 50 \<le> trailTimer p + dt1 then 1 else 0)
     \<and> trailTimer (stepParticle dt1 p) =
           (if 1 / 50 \<le> trailTimer p + dt1 then 0 else trailTimer p + dt1)
     \<and> trail (stepParticle dt1 p) =
           (if samplesAppended dt1 p = 1 \<and> 70 \<le> length (trail p)
            then tl (trail p @ [vadd (pos p) (vscale (vel p) dt1)])
            else trail p @ replicate (samplesAppended dt1 p) (vadd (pos p) (vscale (vel p) dt1)))
     \<and> samplesAppended dt2 (stepParticle dt1 p) =
           (if 1 / 50 \<le> trailTimer (stepParticle dt1 p) + dt2 then 1 else 0)
     \<and> samplesAppended dt1 p + samplesAppended dt2 (stepParticle dt1 p) =
           samplesAppended (dt1 + dt2) p
           + (if 1 / 50 \<le> trailTimer p + dt1 \<and> 1 / 50 \<le> dt2 then 1 else 0)
     \<and> (if 1 / 50 \<le> trailTimer p + dt1 \<and> 1 / 50 \<le> dt2
         then samplesAppended dt1 p + samplesAppended dt2 (stepParticle dt1 p) = 2
              \<and> samplesAppended (dt1 + dt2) p = 1
         else samplesAppended dt1 p + samplesAppended dt2 (stepParticle dt1 p)
              = samplesAppended (dt1 + dt2) p)"
proof -
  have s: "0 < dt1 + dt2" using assms by simp
  have cnt: "samplesAppended dt q = (if 1 / 50 \<le> trailTimer q + dt then 1 else 0)"
    if "0 < dt" for dt q
    using that by (simp add: samplesAppended_def step_trail)
  have a: "samplesAppended dt1 p = (if 1 / 50 \<le> trailTimer p + dt1 then 1 else 0)"
    by (rule cnt [OF assms(1)])
  have b: "trailTimer (stepParticle dt1 p) =
           (if 1 / 50 \<le> trailTimer p + dt1 then 0 else trailTimer p + dt1)"
    by (rule step_trailTimer [OF assms(1)])
  have c: "trail (stepParticle dt1 p) =
           (if samplesAppended dt1 p = 1 \<and> 70 \<le> length (trail p)
            then tl (trail p @ [vadd (pos p) (vscale (vel p) dt1)])
            else trail p @ replicate (samplesAppended dt1 p) (vadd (pos p) (vscale (vel p) dt1)))"
    by (simp add: a step_trail [OF assms(1)])
  have d: "samplesAppended dt2 (stepParticle dt1 p) =
           (if 1 / 50 \<le> trailTimer (stepParticle dt1 p) + dt2 then 1 else 0)"
    by (rule cnt [OF assms(2)])
  have e: "samplesAppended (dt1 + dt2) p = (if 1 / 50 \<le> trailTimer p + (dt1 + dt2) then 1 else 0)"
    by (rule cnt [OF s])
  have f: "samplesAppended dt1 p + samplesAppended dt2 (stepParticle dt1 p) =
           samplesAppended (dt1 + dt2) p
           + (if 1 / 50 \<le> trailTimer p + dt1 \<and> 1 / 50 \<le> dt2 then 1 else 0)"
    using assms by (auto simp: a b d e add.assoc)
  have g: "(if 1 / 50 \<le> trailTimer p + dt1 \<and> 1 / 50 \<le> dt2
         then samplesAppended dt1 p + samplesAppended dt2 (stepParticle dt1 p) = 2
              \<and> samplesAppended (dt1 + dt2) p = 1
         else samplesAppended dt1 p + samplesAppended dt2 (stepParticle dt1 p)
              = samplesAppended (dt1 + dt2) p)"
    using assms by (auto simp: a b d e add.assoc)
  from a b c d f g show ?thesis by (intro conjI)
qed

theorem trail_sampling_split_witness:
  "(0::real) < 1 / 100 \<and> (0::real) < 1 / 50
   \<and> samplesAppended (1 / 100) (electron (makeEvent (sampleRng 0) origin (1 / 2) SpinOnly)) = 0
   \<and> samplesAppended (1 / 100) (stepParticle (1 / 100)
        (electron (makeEvent (sampleRng 0) origin (1 / 2) SpinOnly))) = 1
   \<and> samplesAppended (1 / 100 + 1 / 100)
        (electron (makeEvent (sampleRng 0) origin (1 / 2) SpinOnly)) = 1
   \<and> length (trail (newParticle\<lparr>trail := replicate 70 (vec 0 0)\<rparr>)) = 70
   \<and> samplesAppended (1 / 50) (newParticle\<lparr>trail := replicate 70 (vec 0 0)\<rparr>)
      + samplesAppended (1 / 50) (stepParticle (1 / 50) (newParticle\<lparr>trail := replicate 70 (vec 0 0)\<rparr>))
      = 2
   \<and> samplesAppended (1 / 50 + 1 / 50) (newParticle\<lparr>trail := replicate 70 (vec 0 0)\<rparr>) = 1"
proof -
  let ?p = "electron (makeEvent (sampleRng 0) origin (1 / 2) SpinOnly)"
  let ?q = "newParticle\<lparr>trail := replicate 70 (vec 0 0)\<rparr>"
  have h1: "(0::real) < 1 / 100" and h2: "(0::real) < 1 / 50" by simp_all
  have tp: "trailTimer ?p = 0" by (simp add: fresh_particles)
  have tq: "trailTimer ?q = 0" by (simp add: newParticle_def)
  note w = trail_sampling_split [OF h1 h1, of ?p]
  from w have "samplesAppended (1 / 100) ?p = (if 1 / 50 \<le> trailTimer ?p + 1 / 100 then 1 else 0)"
    by blast
  then have a: "samplesAppended (1 / 100) ?p = 0" by (simp add: fresh_particles)
  from w have "trailTimer (stepParticle (1 / 100) ?p) =
      (if 1 / 50 \<le> trailTimer ?p + 1 / 100 then 0 else trailTimer ?p + 1 / 100)"
    by blast
  then have t1: "trailTimer (stepParticle (1 / 100) ?p) = 1 / 100" by (simp add: fresh_particles)
  from w have "samplesAppended (1 / 100) (stepParticle (1 / 100) ?p) =
      (if 1 / 50 \<le> trailTimer (stepParticle (1 / 100) ?p) + 1 / 100 then 1 else 0)"
    by blast
  then have b: "samplesAppended (1 / 100) (stepParticle (1 / 100) ?p) = 1"
    by (simp add: t1)
  from w have "samplesAppended (1 / 100) ?p + samplesAppended (1 / 100) (stepParticle (1 / 100) ?p) =
      samplesAppended (1 / 100 + 1 / 100) ?p
      + (if 1 / 50 \<le> trailTimer ?p + 1 / 100 \<and> (1::real) / 50 \<le> 1 / 100 then 1 else 0)"
    by blast
  then have c: "samplesAppended (1 / 100 + 1 / 100) ?p = 1" by (simp add: a b)
  note v = trail_sampling_split [OF h2 h2, of ?q]
  have gate: "1 / 50 \<le> trailTimer ?q + 1 / 50 \<and> (1::real) / 50 \<le> 1 / 50" by (simp add: tq)
  from v have "(if 1 / 50 \<le> trailTimer ?q + 1 / 50 \<and> (1::real) / 50 \<le> 1 / 50
         then samplesAppended (1 / 50) ?q + samplesAppended (1 / 50) (stepParticle (1 / 50) ?q) = 2
              \<and> samplesAppended (1 / 50 + 1 / 50) ?q = 1
         else samplesAppended (1 / 50) ?q + samplesAppended (1 / 50) (stepParticle (1 / 50) ?q)
              = samplesAppended (1 / 50 + 1 / 50) ?q)"
    by blast
  with gate have d: "samplesAppended (1 / 50) ?q + samplesAppended (1 / 50) (stepParticle (1 / 50) ?q) = 2"
    and e: "samplesAppended (1 / 50 + 1 / 50) ?q = 1"
    by (simp_all only: if_True)
  have l: "length (trail ?q) = 70" by simp
  from h1 h2 a b c l d e show ?thesis by (intro conjI)
qed

section \<open>The hit-test resolver\<close>

lemma tip_titles_distinct:
  "TIP_NEUTRON_TITLE \<noteq> TIP_MOM_TITLE" "TIP_NEUTRON_TITLE \<noteq> TIP_SPIN_TITLE"
  "TIP_NEUTRON_TITLE \<noteq> TIP_SWIRL_TITLE" "TIP_SWIRL_TITLE \<noteq> TIP_MOM_TITLE"
  "TIP_SWIRL_TITLE \<noteq> TIP_SPIN_TITLE"
  by (simp_all add: TIP_NEUTRON_TITLE_def TIP_MOM_TITLE_def TIP_SPIN_TITLE_def TIP_SWIRL_TITLE_def)

lemma setTip_fields:
  "active (setTip ti bo tip) = True" "title (setTip ti bo tip) = ti" "body (setTip ti bo tip) = bo"
  by (simp_all add: setTip_def)

lemma newTooltip_fields:
  "active newTooltip = False" "title newTooltip = []" "body newTooltip = []"
  by (simp_all add: newTooltip_def)

lemma hoverArrows_choices:
  "hoverArrows mouse segs newTooltip \<in>
     {newTooltip, setTip TIP_MOM_TITLE TIP_MOM_BODY newTooltip,
      setTip TIP_SPIN_TITLE TIP_SPIN_BODY newTooltip}"
  by (induction segs) (simp_all add: Let_def)

lemma resolve_neutron:
  "hitCircle mouse origin 24 \<Longrightarrow>
     resolveTooltip mouse m ev segs = setTip TIP_NEUTRON_TITLE TIP_NEUTRON_BODY newTooltip"
  by (simp add: resolveTooltip_def Let_def setTip_fields)

lemma resolve_proton:
  "\<not> hitCircle mouse origin 24 \<Longrightarrow> hitCircle mouse protonPos 20 \<Longrightarrow>
     resolveTooltip mouse m ev segs = setTip TIP_PROTON_TITLE TIP_PROTON_BODY newTooltip"
  by (simp add: resolveTooltip_def Let_def setTip_fields)

lemma resolve_electron:
  "\<not> hitCircle mouse origin 24 \<Longrightarrow> \<not> hitCircle mouse protonPos 20 \<Longrightarrow>
   hitCircle mouse (pos (electron ev)) 18 \<Longrightarrow>
     resolveTooltip mouse m ev segs = setTip TIP_ELECTRON_TITLE TIP_ELECTRON_BODY newTooltip"
  by (simp add: resolveTooltip_def Let_def setTip_fields)

lemma resolve_antinu:
  "\<not> hitCircle mouse origin 24 \<Longrightarrow> \<not> hitCircle mouse protonPos 20 \<Longrightarrow>
   \<not> hitCircle mouse (pos (electron ev)) 18 \<Longrightarrow> hitCircle mouse (pos (antinu ev)) 16 \<Longrightarrow>
     resolveTooltip mouse m ev segs = setTip TIP_ANTINU_TITLE TIP_ANTINU_BODY newTooltip"
  by (simp add: resolveTooltip_def Let_def setTip_fields)

lemma resolve_swirl:
  "\<not> hitCircle mouse origin 24 \<Longrightarrow> \<not> hitCircle mouse protonPos 20 \<Longrightarrow>
   \<not> hitCircle mouse (pos (electron ev)) 18 \<Longrightarrow> \<not> hitCircle mouse (pos (antinu ev)) 16 \<Longrightarrow>
   \<bar>vlen (vsub mouse origin) - (22 + real_of_int \<bar>L_needed ev\<bar> * 10)\<bar> < 14 \<Longrightarrow>
   resolveTooltip mouse FullConservation ev segs = setTip TIP_SWIRL_TITLE TIP_SWIRL_BODY newTooltip"
  by (simp add: resolveTooltip_def Let_def setTip_fields newTooltip_fields)

lemma resolve_arrows:
  "\<not> hitCircle mouse origin 24 \<Longrightarrow> \<not> hitCircle mouse protonPos 20 \<Longrightarrow>
   \<not> hitCircle mouse (pos (electron ev)) 18 \<Longrightarrow> \<not> hitCircle mouse (pos (antinu ev)) 16 \<Longrightarrow>
   \<not> (m = FullConservation \<and>
       \<bar>vlen (vsub mouse origin) - (22 + real_of_int \<bar>L_needed ev\<bar> * 10)\<bar> < 14) \<Longrightarrow>
     resolveTooltip mouse m ev segs = hoverArrows mouse segs newTooltip"
  by (simp add: resolveTooltip_def Let_def setTip_fields newTooltip_fields)

lemma hoverArrows_hit:
  "\<exists>s\<in>set segs. pointSegmentDistance mouse (seg_a s) (seg_b s) < 8 \<Longrightarrow>
     active (hoverArrows mouse segs newTooltip)
     \<and> title (hoverArrows mouse segs newTooltip) \<in> {TIP_MOM_TITLE, TIP_SPIN_TITLE}"
  by (induction segs) (auto simp: Let_def setTip_fields)

lemma hoverArrows_miss:
  "\<not> (\<exists>s\<in>set segs. pointSegmentDistance mouse (seg_a s) (seg_b s) < 8) \<Longrightarrow>
     hoverArrows mouse segs newTooltip = newTooltip"
  by (induction segs) (auto simp: Let_def)

lemma sqrt_576: "sqrt 576 = 24"
  by (rule real_sqrt_unique) simp_all

lemma sqrt_900: "sqrt 900 = 30"
  by (rule real_sqrt_unique) simp_all

lemma psd_at_start: "pointSegmentDistance a a b = 0"
  by (simp add: pointSegmentDistance_def Let_def vsub_def vlen_def vdot_def vadd_def vscale_def clampf_def)

lemma origin_value: "origin = vec 200 350"
  by (simp add: origin_def arena_def)

lemma protonPos_value: "protonPos = vec 240 350"
  by (simp add: protonPos_def origin_value)

lemma frameSegs_first:
  "m \<noteq> SpinOnly \<Longrightarrow> \<lparr>seg_a = pos (electron ev), seg_b = vadd (pos (electron ev))
      (vscale (vnorm (vel (electron ev))) 60), kind = 0\<rparr> \<in> set (frameSegs m ev)"
  by (simp add: frameSegs_def drawVectors_def Let_def)

lemma setTip_not_new: "setTip ti bo tip \<noteq> newTooltip"
proof
  assume "setTip ti bo tip = newTooltip"
  then have "active (setTip ti bo tip) = active newTooltip" by (rule arg_cong)
  then show False by (simp add: setTip_fields newTooltip_fields)
qed

lemma hoverArrows_active:
  "active (hoverArrows mouse segs newTooltip) \<longleftrightarrow>
     (\<exists>s\<in>set segs. pointSegmentDistance mouse (seg_a s) (seg_b s) < 8)"
proof (cases "\<exists>s\<in>set segs. pointSegmentDistance mouse (seg_a s) (seg_b s) < 8")
  case True
  then show ?thesis using hoverArrows_hit [of segs mouse] by blast
next
  case False
  then show ?thesis by (simp only: hoverArrows_miss newTooltip_fields simp_thms)
qed

text \<open>
  Claim C3. The resolver returns one tooltip: the inactive, empty one, or an active one
  carrying one of the seven title and body texts. Its rules apply in order and the first
  match wins; in particular, for a pointer within the neutron's hit radius 24 that is
  also nearer than 8 to an arrow segment, the result is active with the neutron title and
  body, and carries neither arrow title. The proton, electron and antineutrino circles
  follow in this order, each only when the earlier ones miss; then the swirl ring, in
  mode \<open>FullConservation\<close> only; and only when all of these miss, the scan of the arrow
  segments, which gives an active arrow tooltip exactly when some segment is nearer
  than 8.
\<close>

theorem resolver_priority:
  "resolveTooltip mouse m ev segs \<in>
     {newTooltip,
      setTip TIP_NEUTRON_TITLE TIP_NEUTRON_BODY newTooltip,
      setTip TIP_PROTON_TITLE TIP_PROTON_BODY newTooltip,
      setTip TIP_ELECTRON_TITLE TIP_ELECTRON_BODY newTooltip,
      setTip TIP_ANTINU_TITLE TIP_ANTINU_BODY newTooltip,
      setTip TIP_SWIRL_TITLE TIP_SWIRL_BODY newTooltip,
      setTip TIP_MOM_TITLE TIP_MOM_BODY newTooltip,
      setTip TIP_SPIN_TITLE TIP_SPIN_BODY newTooltip}
   \<and> active (resolveTooltip mouse m ev segs) = (resolveTooltip mouse m ev segs \<noteq> newTooltip)
   \<and> (active (resolveTooltip mouse m ev segs),
       title (resolveTooltip mouse m ev segs), body (resolveTooltip mouse m ev segs)) \<in>
     {(False, [], []),
      (True, TIP_NEUTRON_TITLE, TIP_NEUTRON_BODY),
      (True, TIP_PROTON_TITLE, TIP_PROTON_BODY),
      (True, TIP_ELECTRON_TITLE, TIP_ELECTRON_BODY),
      (True, TIP_ANTINU_TITLE, TIP_ANTINU_BODY),
      (True, TIP_SWIRL_TITLE, TIP_SWIRL_BODY),
      (True, TIP_MOM_TITLE, TIP_MOM_BODY),
      (True, TIP_SPIN_TITLE, TIP_SPIN_BODY)}
   \<and> (hitCircle mouse origin 24
        \<and> (\<exists>s\<in>set segs. pointSegmentDistance mouse (seg_a s) (seg_b s) < 8) \<longrightarrow>
          resolveTooltip mouse m ev segs = setTip TIP_NEUTRON_TITLE TIP_NEUTRON_BODY newTooltip
          \<and> active (resolveTooltip mouse m ev segs)
          \<and> title (resolveTooltip mouse m ev segs) = TIP_NEUTRON_TITLE
          \<and> body (resolveTooltip mouse m ev segs) = TIP_NEUTRON_BODY
          \<and> title (resolveTooltip mouse m ev segs) \<noteq> TIP_MOM_TITLE
          \<and> title (resolveTooltip mouse m ev segs) \<noteq> TIP_SPIN_TITLE)
   \<and> (\<not> hitCircle mouse origin 24 \<and> hitCircle mouse protonPos 20 \<longrightarrow>
          resolveTooltip mouse m ev segs = setTip TIP_PROTON_TITLE TIP_PROTON_BODY newTooltip
          \<and> active (resolveTooltip mouse m ev segs)
          \<and> title (resolveTooltip mouse m ev segs) = TIP_PROTON_TITLE
          \<and> body (resolveTooltip mouse m ev segs) = TIP_PROTON_BODY)
   \<and> (\<not> hitCircle mouse origin 24 \<and> \<not> hitCircle mouse protonPos 20
        \<and> hitCircle mouse (pos (electron ev)) 18 \<longrightarrow>
          resolveTooltip mouse m ev segs = setTip TIP_ELECTRON_TITLE TIP_ELECTRON_BODY newTooltip
          \<and> active (resolveTooltip mouse m ev segs)
          \<and> title (resolveTooltip mouse m ev segs) = TIP_ELECTRON_TITLE
          \<and> body (resolveTooltip mouse m ev segs) = TIP_ELECTRON_BODY)
   \<and> (\<not> hitCircle mouse origin 24 \<and> \<not> hitCircle mouse protonPos 20
        \<and> \<not> hitCircle mouse (pos (electron ev)) 18 \<and> hitCircle mouse (pos (antinu ev)) 16 \<longrightarrow>
          resolveTooltip mouse m ev segs = setTip TIP_ANTINU_TITLE TIP_ANTINU_BODY newTooltip
          \<and> active (resolveTooltip mouse m ev segs)
          \<and> title (resolveTooltip mouse m ev segs) = TIP_ANTINU_TITLE
          \<and> body (resolveTooltip mouse m ev segs) = TIP_ANTINU_BODY)
   \<and> (\<not> hitCircle mouse origin 24 \<and> \<not> hitCircle mouse protonPos 20
        \<and> \<not> hitCircle mouse (pos (electron ev)) 18 \<and> \<not> hitCircle mouse (pos (antinu ev)) 16
        \<and> m = FullConservation
        \<and> \<bar>vlen (vsub mouse origin) - (22 + real_of_int \<bar>L_needed ev\<bar> * 10)\<bar> < 14 \<longrightarrow>
          resolveTooltip mouse m ev segs = setTip TIP_SWIRL_TITLE TIP_SWIRL_BODY newTooltip
          \<and> active (resolveTooltip mouse m ev segs)
          \<and> title (resolveTooltip mouse m ev segs) = TIP_SWIRL_TITLE
          \<and> body (resolveTooltip mouse m ev segs) = TIP_SWIRL_BODY)
   \<and> (\<not> hitCircle mouse origin 24 \<and> \<not> hitCircle mouse protonPos 20
        \<and> \<not> hitCircle mouse (pos (electron ev)) 18 \<and> \<not> hitCircle mouse (pos (antinu ev)) 16
        \<and> \<not> (m = FullConservation
             \<and> \<bar>vlen (vsub mouse origin) - (22 + real_of_int \<bar>L_needed ev\<bar> * 10)\<bar> < 14) \<longrightarrow>
          resolveTooltip mouse m ev segs = hoverArrows mouse segs newTooltip
          \<and> active (resolveTooltip mouse m ev segs)
              = (\<exists>s\<in>set segs. pointSegmentDistance mouse (seg_a s) (seg_b s) < 8))"
proof -
  let ?r = "resolveTooltip mouse m ev segs"
  have mem: "?r \<in>
     {newTooltip,
      setTip TIP_NEUTRON_TITLE TIP_NEUTRON_BODY newTooltip,
      setTip TIP_PROTON_TITLE TIP_PROTON_BODY newTooltip,
      setTip TIP_ELECTRON_TITLE TIP_ELECTRON_BODY newTooltip,
      setTip TIP_ANTINU_TITLE TIP_ANTINU_BODY newTooltip,
      setTip TIP_SWIRL_TITLE TIP_SWIRL_BODY newTooltip,
      setTip TIP_MOM_TITLE TIP_MOM_BODY newTooltip,
      setTip TIP_SPIN_TITLE TIP_SPIN_BODY newTooltip}"
  proof -
    consider (n) "hitCircle mouse origin 24"
      | (p) "\<not> hitCircle mouse origin 24" "hitCircle mouse protonPos 20"
      | (e) "\<not> hitCircle mouse origin 24" "\<not> hitCircle mouse protonPos 20"
            "hitCircle mouse (pos (electron ev)) 18"
      | (a) "\<not> hitCircle mouse origin 24" "\<not> hitCircle mouse protonPos 20"
            "\<not> hitCircle mouse (pos (electron ev)) 18" "hitCircle mouse (pos (antinu ev)) 16"
      | (s) "\<not> hitCircle mouse origin 24" "\<not> hitCircle mouse protonPos 20"
            "\<not> hitCircle mouse (pos (electron ev)) 18" "\<not> hitCircle mouse (pos (antinu ev)) 16"
            "m = FullConservation"
            "\<bar>vlen (vsub mouse origin) - (22 + real_of_int \<bar>L_needed ev\<bar> * 10)\<bar> < 14"
      | (h) "\<not> hitCircle mouse origin 24" "\<not> hitCircle mouse protonPos 20"
            "\<not> hitCircle mouse (pos (electron ev)) 18" "\<not> hitCircle mouse (pos (antinu ev)) 16"
            "\<not> (m = FullConservation \<and>
               \<bar>vlen (vsub mouse origin) - (22 + real_of_int \<bar>L_needed ev\<bar> * 10)\<bar> < 14)"
      by blast
    then show ?thesis
    proof cases
      case n then show ?thesis by (simp only: resolve_neutron insert_iff simp_thms)
    next
      case p then show ?thesis by (simp only: resolve_proton insert_iff simp_thms)
    next
      case e then show ?thesis by (simp only: resolve_electron insert_iff simp_thms)
    next
      case a then show ?thesis by (simp only: resolve_antinu insert_iff simp_thms)
    next
      case s
      from resolve_swirl [OF s(1) s(2) s(3) s(4) s(6), of segs] s(5) show ?thesis
        by (simp only: insert_iff simp_thms)
    next
      case h
      have "?r = hoverArrows mouse segs newTooltip"
        by (rule resolve_arrows [OF h])
      with hoverArrows_choices [of mouse segs] show ?thesis
        by (simp only: insert_iff empty_iff simp_thms) blast
    qed
  qed
  from mem have alt: "?r = newTooltip
      \<or> ?r = setTip TIP_NEUTRON_TITLE TIP_NEUTRON_BODY newTooltip
      \<or> ?r = setTip TIP_PROTON_TITLE TIP_PROTON_BODY newTooltip
      \<or> ?r = setTip TIP_ELECTRON_TITLE TIP_ELECTRON_BODY newTooltip
      \<or> ?r = setTip TIP_ANTINU_TITLE TIP_ANTINU_BODY newTooltip
      \<or> ?r = setTip TIP_SWIRL_TITLE TIP_SWIRL_BODY newTooltip
      \<or> ?r = setTip TIP_MOM_TITLE TIP_MOM_BODY newTooltip
      \<or> ?r = setTip TIP_SPIN_TITLE TIP_SPIN_BODY newTooltip"
    by (simp only: insert_iff empty_iff simp_thms)
  have act: "active ?r = (?r \<noteq> newTooltip)"
    using alt by (elim disjE) (simp_all add: setTip_fields newTooltip_fields setTip_not_new)
  have texts: "(active ?r, title ?r, body ?r) \<in>
     {(False, [], []),
      (True, TIP_NEUTRON_TITLE, TIP_NEUTRON_BODY),
      (True, TIP_PROTON_TITLE, TIP_PROTON_BODY),
      (True, TIP_ELECTRON_TITLE, TIP_ELECTRON_BODY),
      (True, TIP_ANTINU_TITLE, TIP_ANTINU_BODY),
      (True, TIP_SWIRL_TITLE, TIP_SWIRL_BODY),
      (True, TIP_MOM_TITLE, TIP_MOM_BODY),
      (True, TIP_SPIN_TITLE, TIP_SPIN_BODY)}"
    using alt by (elim disjE) (simp_all only: setTip_fields newTooltip_fields insert_iff simp_thms)
  have r1: "hitCircle mouse origin 24
        \<and> (\<exists>s\<in>set segs. pointSegmentDistance mouse (seg_a s) (seg_b s) < 8) \<longrightarrow>
          ?r = setTip TIP_NEUTRON_TITLE TIP_NEUTRON_BODY newTooltip
          \<and> active ?r \<and> title ?r = TIP_NEUTRON_TITLE \<and> body ?r = TIP_NEUTRON_BODY
          \<and> title ?r \<noteq> TIP_MOM_TITLE \<and> title ?r \<noteq> TIP_SPIN_TITLE"
    by (simp add: resolve_neutron setTip_fields tip_titles_distinct)
  have r2: "\<not> hitCircle mouse origin 24 \<and> hitCircle mouse protonPos 20 \<longrightarrow>
          ?r = setTip TIP_PROTON_TITLE TIP_PROTON_BODY newTooltip
          \<and> active ?r \<and> title ?r = TIP_PROTON_TITLE \<and> body ?r = TIP_PROTON_BODY"
    by (simp add: resolve_proton setTip_fields)
  have r3: "\<not> hitCircle mouse origin 24 \<and> \<not> hitCircle mouse protonPos 20
        \<and> hitCircle mouse (pos (electron ev)) 18 \<longrightarrow>
          ?r = setTip TIP_ELECTRON_TITLE TIP_ELECTRON_BODY newTooltip
          \<and> active ?r \<and> title ?r = TIP_ELECTRON_TITLE \<and> body ?r = TIP_ELECTRON_BODY"
    by (simp add: resolve_electron setTip_fields)
  have r4: "\<not> hitCircle mouse origin 24 \<and> \<not> hitCircle mouse protonPos 20
        \<and> \<not> hitCircle mouse (pos (electron ev)) 18 \<and> hitCircle mouse (pos (antinu ev)) 16 \<longrightarrow>
          ?r = setTip TIP_ANTINU_TITLE TIP_ANTINU_BODY newTooltip
          \<and> active ?r \<and> title ?r = TIP_ANTINU_TITLE \<and> body ?r = TIP_ANTINU_BODY"
    by (simp add: resolve_antinu setTip_fields)
  have r5: "\<not> hitCircle mouse origin 24 \<and> \<not> hitCircle mouse protonPos 20
        \<and> \<not> hitCircle mouse (pos (electron ev)) 18 \<and> \<not> hitCircle mouse (pos (antinu ev)) 16
        \<and> m = FullConservation
        \<and> \<bar>vlen (vsub mouse origin) - (22 + real_of_int \<bar>L_needed ev\<bar> * 10)\<bar> < 14 \<longrightarrow>
          ?r = setTip TIP_SWIRL_TITLE TIP_SWIRL_BODY newTooltip
          \<and> active ?r \<and> title ?r = TIP_SWIRL_TITLE \<and> body ?r = TIP_SWIRL_BODY"
    by (simp add: resolve_swirl setTip_fields)
  have r6: "\<not> hitCircle mouse origin 24 \<and> \<not> hitCircle mouse protonPos 20
        \<and> \<not> hitCircle mouse (pos (electron ev)) 18 \<and> \<not> hitCircle mouse (pos (antinu ev)) 16
        \<and> \<not> (m = FullConservation
             \<and> \<bar>vlen (vsub mouse origin) - (22 + real_of_int \<bar>L_needed ev\<bar> * 10)\<bar> < 14) \<longrightarrow>
          ?r = hoverArrows mouse segs newTooltip
          \<and> active ?r = (\<exists>s\<in>set segs. pointSegmentDistance mouse (seg_a s) (seg_b s) < 8)"
  proof (intro impI, elim conjE)
    assume h: "\<not> hitCircle mouse origin 24" "\<not> hitCircle mouse protonPos 20"
      "\<not> hitCircle mouse (pos (electron ev)) 18" "\<not> hitCircle mouse (pos (antinu ev)) 16"
      "\<not> (m = FullConservation
             \<and> \<bar>vlen (vsub mouse origin) - (22 + real_of_int \<bar>L_needed ev\<bar> * 10)\<bar> < 14)"
    have eq: "?r = hoverArrows mouse segs newTooltip" by (rule resolve_arrows [OF h])
    show "?r = hoverArrows mouse segs newTooltip
          \<and> active ?r = (\<exists>s\<in>set segs. pointSegmentDistance mouse (seg_a s) (seg_b s) < 8)"
      by (simp only: eq hoverArrows_active simp_thms)
  qed
  from mem act texts r1 r2 r3 r4 r5 r6 show ?thesis by (intro conjI)
qed

theorem resolver_priority_witness:
  "hitCircle origin origin 24
   \<and> (\<exists>s. s \<in> set (frameSegs SpinAndMotion (makeEvent (sampleRng 0) origin (1 / 2) SpinAndMotion))
        \<and> pointSegmentDistance origin (seg_a s) (seg_b s) < 8)
   \<and> active (frameTooltip origin SpinAndMotion (makeEvent (sampleRng 0) origin (1 / 2) SpinAndMotion))
   \<and> title (frameTooltip origin SpinAndMotion (makeEvent (sampleRng 0) origin (1 / 2) SpinAndMotion))
       = TIP_NEUTRON_TITLE
   \<and> body (frameTooltip origin SpinAndMotion (makeEvent (sampleRng 0) origin (1 / 2) SpinAndMotion))
       = TIP_NEUTRON_BODY
   \<and> title (frameTooltip origin SpinAndMotion (makeEvent (sampleRng 0) origin (1 / 2) SpinAndMotion))
       \<noteq> TIP_MOM_TITLE
   \<and> \<not> hitCircle protonPos origin 24 \<and> hitCircle protonPos protonPos 20
   \<and> active (resolveTooltip protonPos SpinAndMotion
        (makeEvent (sampleRng 0) origin (1 / 2) SpinAndMotion) [])
   \<and> title (resolveTooltip protonPos SpinAndMotion
        (makeEvent (sampleRng 0) origin (1 / 2) SpinAndMotion) []) = TIP_PROTON_TITLE
   \<and> active (resolveTooltip (vec 500 350) SpinAndMotion
        (newDecayEvent\<lparr>electron := newParticle\<lparr>pos := vec 500 350\<rparr>,
                        antinu := newParticle\<lparr>pos := vec 100 350\<rparr>\<rparr>) [])
   \<and> title (resolveTooltip (vec 500 350) SpinAndMotion
        (newDecayEvent\<lparr>electron := newParticle\<lparr>pos := vec 500 350\<rparr>,
                        antinu := newParticle\<lparr>pos := vec 100 350\<rparr>\<rparr>) []) = TIP_ELECTRON_TITLE
   \<and> active (resolveTooltip (vec 100 350) SpinAndMotion
        (newDecayEvent\<lparr>electron := newParticle\<lparr>pos := vec 500 350\<rparr>,
                        antinu := newParticle\<lparr>pos := vec 100 350\<rparr>\<rparr>) [])
   \<and> title (resolveTooltip (vec 100 350) SpinAndMotion
        (newDecayEvent\<lparr>electron := newParticle\<lparr>pos := vec 500 350\<rparr>,
                        antinu := newParticle\<lparr>pos := vec 100 350\<rparr>\<rparr>) []) = TIP_ANTINU_TITLE
   \<and> active (resolveTooltip (vec 200 380) FullConservation
        (newDecayEvent\<lparr>electron := newParticle\<lparr>pos := vec 500 350\<rparr>,
                        antinu := newParticle\<lparr>pos := vec 100 350\<rparr>\<rparr>) [])
   \<and> title (resolveTooltip (vec 200 380) FullConservation
        (newDecayEvent\<lparr>electron := newParticle\<lparr>pos := vec 500 350\<rparr>,
                        antinu := newParticle\<lparr>pos := vec 100 350\<rparr>\<rparr>) []) = TIP_SWIRL_TITLE
   \<and> active (resolveTooltip (vec 200 380) SpinAndMotion
        (newDecayEvent\<lparr>electron := newParticle\<lparr>pos := vec 500 350\<rparr>,
                        antinu := newParticle\<lparr>pos := vec 100 350\<rparr>\<rparr>)
        [\<lparr>seg_a = vec 200 380, seg_b = vec 260 380, kind = 0\<rparr>])
   \<and> title (resolveTooltip (vec 200 380) SpinAndMotion
        (newDecayEvent\<lparr>electron := newParticle\<lparr>pos := vec 500 350\<rparr>,
                        antinu := newParticle\<lparr>pos := vec 100 350\<rparr>\<rparr>)
        [\<lparr>seg_a = vec 200 380, seg_b = vec 260 380, kind = 0\<rparr>]) = TIP_MOM_TITLE
   \<and> \<not> active (resolveTooltip (vec 200 380) SpinAndMotion
        (newDecayEvent\<lparr>electron := newParticle\<lparr>pos := vec 500 350\<rparr>,
                        antinu := newParticle\<lparr>pos := vec 100 350\<rparr>\<rparr>) [])
   \<and> title (resolveTooltip (vec 200 380) SpinAndMotion
        (newDecayEvent\<lparr>electron := newParticle\<lparr>pos := vec 500 350\<rparr>,
                        antinu := newParticle\<lparr>pos := vec 100 350\<rparr>\<rparr>) []) = []"
proof -
  let ?ev = "makeEvent (sampleRng 0) origin (1 / 2) SpinAndMotion"
  let ?ev2 = "newDecayEvent\<lparr>electron := newParticle\<lparr>pos := vec 500 350\<rparr>,
                        antinu := newParticle\<lparr>pos := vec 100 350\<rparr>\<rparr>"
  let ?sg = "\<lparr>seg_a = pos (electron ?ev), seg_b = vadd (pos (electron ?ev))
      (vscale (vnorm (vel (electron ?ev))) 60), kind = 0\<rparr>"
  let ?one = "[\<lparr>seg_a = vec 200 380, seg_b = vec 260 380, kind = 0\<rparr>]"
  have h1: "hitCircle origin origin 24" by (simp add: hitCircle_def dist2_def)
  have "?sg \<in> set (frameSegs SpinAndMotion ?ev)" by (rule frameSegs_first) simp
  moreover have "pointSegmentDistance origin (seg_a ?sg) (seg_b ?sg) < 8"
    by (simp add: fresh_particles psd_at_start)
  ultimately have h2: "\<exists>s. s \<in> set (frameSegs SpinAndMotion ?ev)
      \<and> pointSegmentDistance origin (seg_a s) (seg_b s) < 8"
    by blast
  then have h2': "\<exists>s\<in>set (frameSegs SpinAndMotion ?ev).
      pointSegmentDistance origin (seg_a s) (seg_b s) < 8"
    by blast
  from resolver_priority [of origin SpinAndMotion ?ev "frameSegs SpinAndMotion ?ev"] h1 h2'
  have r1: "active (frameTooltip origin SpinAndMotion ?ev)"
    "title (frameTooltip origin SpinAndMotion ?ev) = TIP_NEUTRON_TITLE"
    "body (frameTooltip origin SpinAndMotion ?ev) = TIP_NEUTRON_BODY"
    "title (frameTooltip origin SpinAndMotion ?ev) \<noteq> TIP_MOM_TITLE"
    unfolding frameTooltip_def by blast+
  have h3: "\<not> hitCircle protonPos origin 24" "hitCircle protonPos protonPos 20"
    by (simp_all add: hitCircle_def dist2_def protonPos_value origin_value)
  from resolver_priority [of protonPos SpinAndMotion ?ev "[]"] h3
  have r2: "active (resolveTooltip protonPos SpinAndMotion ?ev [])"
    "title (resolveTooltip protonPos SpinAndMotion ?ev []) = TIP_PROTON_TITLE"
    by blast+
  have h4: "\<not> hitCircle (vec 500 350) origin 24" "\<not> hitCircle (vec 500 350) protonPos 20"
    "hitCircle (vec 500 350) (pos (electron ?ev2)) 18"
    by (simp_all add: hitCircle_def dist2_def protonPos_value origin_value)
  from resolver_priority [of "vec 500 350" SpinAndMotion ?ev2 "[]"] h4
  have r3: "active (resolveTooltip (vec 500 350) SpinAndMotion ?ev2 [])"
    "title (resolveTooltip (vec 500 350) SpinAndMotion ?ev2 []) = TIP_ELECTRON_TITLE"
    by blast+
  have h5: "\<not> hitCircle (vec 100 350) origin 24" "\<not> hitCircle (vec 100 350) protonPos 20"
    "\<not> hitCircle (vec 100 350) (pos (electron ?ev2)) 18"
    "hitCircle (vec 100 350) (pos (antinu ?ev2)) 16"
    by (simp_all add: hitCircle_def dist2_def protonPos_value origin_value)
  from resolver_priority [of "vec 100 350" SpinAndMotion ?ev2 "[]"] h5
  have r4: "active (resolveTooltip (vec 100 350) SpinAndMotion ?ev2 [])"
    "title (resolveTooltip (vec 100 350) SpinAndMotion ?ev2 []) = TIP_ANTINU_TITLE"
    by blast+
  have h6: "\<not> hitCircle (vec 200 380) origin 24" "\<not> hitCircle (vec 200 380) protonPos 20"
    "\<not> hitCircle (vec 200 380) (pos (electron ?ev2)) 18"
    "\<not> hitCircle (vec 200 380) (pos (antinu ?ev2)) 16"
    by (simp_all add: hitCircle_def dist2_def protonPos_value origin_value)
  have d: "vlen (vsub (vec 200 380) origin) = 30"
    by (simp add: origin_value vsub_def vlen_def sqrt_900)
  have h7: "\<bar>vlen (vsub (vec 200 380) origin) - (22 + real_of_int \<bar>L_needed ?ev2\<bar> * 10)\<bar> < 14"
    by (simp add: d newDecayEvent_def)
  from resolver_priority [of "vec 200 380" FullConservation ?ev2 "[]"] h6 h7
  have r5: "active (resolveTooltip (vec 200 380) FullConservation ?ev2 [])"
    "title (resolveTooltip (vec 200 380) FullConservation ?ev2 []) = TIP_SWIRL_TITLE"
    by blast+
  have h8: "\<not> (SpinAndMotion = FullConservation
      \<and> \<bar>vlen (vsub (vec 200 380) origin) - (22 + real_of_int \<bar>L_needed ?ev2\<bar> * 10)\<bar> < 14)"
    by simp
  have near: "\<exists>s\<in>set ?one. pointSegmentDistance (vec 200 380) (seg_a s) (seg_b s) < 8"
    by (simp add: psd_at_start)
  from resolver_priority [of "vec 200 380" SpinAndMotion ?ev2 ?one] h6 h8 near
  have r6a: "active (resolveTooltip (vec 200 380) SpinAndMotion ?ev2 ?one)"
    and r6e: "resolveTooltip (vec 200 380) SpinAndMotion ?ev2 ?one =
        hoverArrows (vec 200 380) ?one newTooltip"
    by blast+
  have r6t: "title (resolveTooltip (vec 200 380) SpinAndMotion ?ev2 ?one) = TIP_MOM_TITLE"
    by (simp add: r6e psd_at_start setTip_fields)
  have far: "\<not> (\<exists>s\<in>set ([]::Seg list). pointSegmentDistance (vec 200 380) (seg_a s) (seg_b s) < 8)"
    by simp
  from resolver_priority [of "vec 200 380" SpinAndMotion ?ev2 "[]"] h6 h8 far
  have r7a: "\<not> active (resolveTooltip (vec 200 380) SpinAndMotion ?ev2 [])"
    and r7e: "resolveTooltip (vec 200 380) SpinAndMotion ?ev2 [] =
        hoverArrows (vec 200 380) [] newTooltip"
    by blast+
  have r7t: "title (resolveTooltip (vec 200 380) SpinAndMotion ?ev2 []) = []"
    by (simp add: r7e newTooltip_fields)
  from h1 h2 r1 h3 r2 r3 r4 r5 r6a r6t r7a r7t show ?thesis by (intro conjI)
qed

lemma vlen_dist2: "vlen (vsub a b) = sqrt (dist2 a b)"
  by (simp add: vlen_def vsub_def dist2_def Let_def)

lemma miss_neutron_iff: "\<not> hitCircle mouse origin 24 \<longleftrightarrow> 24 < vlen (vsub mouse origin)"
proof -
  have "24 < sqrt (dist2 mouse origin) \<longleftrightarrow> sqrt 576 < sqrt (dist2 mouse origin)"
    by (simp only: sqrt_576)
  also have "\<dots> \<longleftrightarrow> 576 < dist2 mouse origin"
    by (rule real_sqrt_less_iff)
  finally show ?thesis by (simp add: hitCircle_def vlen_dist2 not_le)
qed

lemma drawOrbitalSwirl_zero: "drawOrbitalSwirl c 0 time = None"
  by (simp add: drawOrbitalSwirl_def)

lemma drawOrbitalSwirl_nonzero: "L \<noteq> 0 \<Longrightarrow> drawOrbitalSwirl c L time \<noteq> None"
  by (simp add: drawOrbitalSwirl_def Let_def)

text \<open>
  Claim C10. In mode \<open>FullConservation\<close> the swirl hit-test does not ask for a non-zero
  \<open>L_needed\<close>. With \<open>L_needed = 0\<close> no swirl is drawn (\<open>drawOrbitalSwirl\<close> returns before
  drawing), and still a pointer at distance \<open>d\<close> from the neutron anchor with
  \<open>|d - 22| < 14\<close> that misses the four body circles gets the swirl tooltip, whatever the
  arrow segments; such a pointer has \<open>24 < d < 36\<close>.
\<close>

theorem swirl_tooltip_without_swirl:
  assumes "L_needed ev = 0"
    and "\<bar>vlen (vsub mouse origin) - 22\<bar> < 14"
    and "\<not> hitCircle mouse origin 24"
    and "\<not> hitCircle mouse protonPos 20"
    and "\<not> hitCircle mouse (pos (electron ev)) 18"
    and "\<not> hitCircle mouse (pos (antinu ev)) 16"
  shows "frameSwirl FullConservation ev time = None
    \<and> resolveTooltip mouse FullConservation ev segs = setTip TIP_SWIRL_TITLE TIP_SWIRL_BODY newTooltip
    \<and> frameTooltip mouse FullConservation ev = setTip TIP_SWIRL_TITLE TIP_SWIRL_BODY newTooltip
    \<and> 24 < vlen (vsub mouse origin) \<and> vlen (vsub mouse origin) < 36"
proof -
  have lo: "24 < vlen (vsub mouse origin)" using assms(3) by (simp add: miss_neutron_iff)
  have hi: "vlen (vsub mouse origin) < 36" using assms(2) by simp
  have b: "\<bar>vlen (vsub mouse origin) - (22 + real_of_int \<bar>L_needed ev\<bar> * 10)\<bar> < 14"
    using assms(2) by (simp add: assms(1))
  have r: "resolveTooltip mouse FullConservation ev sg = setTip TIP_SWIRL_TITLE TIP_SWIRL_BODY newTooltip"
    for sg
    by (rule resolve_swirl [OF assms(3) assms(4) assms(5) assms(6) b])
  have s: "frameSwirl FullConservation ev time = None"
    by (simp add: frameSwirl_def assms(1) drawOrbitalSwirl_zero)
  from lo hi r s show ?thesis by (simp add: frameTooltip_def)
qed

theorem swirl_tooltip_without_swirl_witness:
  "L_needed (makeEvent \<lparr>angleDraw = 0, u01Draw = 1, pm01Draw = 0\<rparr> origin (85 / 100) FullConservation) = 0
   \<and> vlen (vsub (vec 200 380) origin) = 30
   \<and> \<not> hitCircle (vec 200 380) origin 24
   \<and> \<not> hitCircle (vec 200 380) protonPos 20
   \<and> frameSwirl FullConservation
        (makeEvent \<lparr>angleDraw = 0, u01Draw = 1, pm01Draw = 0\<rparr> origin (85 / 100) FullConservation) 0 = None
   \<and> title (frameTooltip (vec 200 380) FullConservation
        (makeEvent \<lparr>angleDraw = 0, u01Draw = 1, pm01Draw = 0\<rparr> origin (85 / 100) FullConservation))
       = TIP_SWIRL_TITLE
   \<and> active (frameTooltip (vec 200 380) FullConservation
        (makeEvent \<lparr>angleDraw = 0, u01Draw = 1, pm01Draw = 0\<rparr> origin (85 / 100) FullConservation))"
proof -
  let ?ev = "makeEvent \<lparr>angleDraw = 0, u01Draw = 1, pm01Draw = 0\<rparr> origin (85 / 100) FullConservation"
  have d: "vlen (vsub (vec 200 380) origin) = 30"
    by (simp add: origin_value vsub_def vlen_def sqrt_900)
  have h1: "L_needed ?ev = 0"
    by (simp add: makeEvent_L_needed makeEvent_signs spin_electron spin_antinu vneg_def signf_def)
  have h2: "\<bar>vlen (vsub (vec 200 380) origin) - 22\<bar> < 14"
    by (simp add: d)
  have h3: "\<not> hitCircle (vec 200 380) origin 24"
    by (simp add: hitCircle_def dist2_def origin_value)
  have h4: "\<not> hitCircle (vec 200 380) protonPos 20"
    by (simp add: hitCircle_def dist2_def protonPos_value)
  have h5: "\<not> hitCircle (vec 200 380) (pos (electron ?ev)) 18"
    by (simp add: hitCircle_def dist2_def fresh_particles origin_value)
  have h6: "\<not> hitCircle (vec 200 380) (pos (antinu ?ev)) 16"
    by (simp add: hitCircle_def dist2_def fresh_particles origin_value)
  from swirl_tooltip_without_swirl [OF h1 h2 h3 h4 h5 h6, of 0 "[]"]
  have r: "frameSwirl FullConservation ?ev 0 = None"
    "frameTooltip (vec 200 380) FullConservation ?ev = setTip TIP_SWIRL_TITLE TIP_SWIRL_BODY newTooltip"
    by blast+
  have t: "title (frameTooltip (vec 200 380) FullConservation ?ev) = TIP_SWIRL_TITLE"
    "active (frameTooltip (vec 200 380) FullConservation ?ev)"
    by (simp_all only: r(2) setTip_fields)
  from h1 d h3 h4 r(1) t show ?thesis by (intro conjI)
qed

section \<open>Pause and single step\<close>

lemma handle_N: "handleEvent (KeyPressed N) s = (if paused s then s\<lparr>stepOnce := True\<rparr> else s)"
  by (simp add: handleEvent_def)

lemma respawn_flags:
  "paused (respawn s) = paused s" "stepOnce (respawn s) = stepOnce s" "t_acc (respawn s) = t_acc s"
  "mode (respawn s) = mode s" "leftHandBias (respawn s) = leftHandBias s"
  "showHelp (respawn s) = showHelp s" "isOpen (respawn s) = isOpen s"
  by (simp_all add: respawn_def)

lemma advance_flags:
  "paused (advance dt s) = paused s" "stepOnce (advance dt s) = stepOnce s"
  "t_acc (advance dt s) = t_acc s" "mode (advance dt s) = mode s"
  "leftHandBias (advance dt s) = leftHandBias s"
  "showHelp (advance dt s) = showHelp s" "isOpen (advance dt s) = isOpen s"
  by (simp_all add: advance_def Let_def respawn_flags)

lemma advance_zero: "dt \<le> 0 \<Longrightarrow> advance dt s = s"
  by (simp add: advance_def Let_def step_nonpos)

lemma advance_no_expiry:
  "0 < dt \<Longrightarrow> timeAlive (current s) + dt < duration (current s) \<Longrightarrow>
     rng (advance dt s) = rng s
     \<and> current (advance dt s) = (current s)\<lparr>
          electron := stepParticle dt (electron (current s)),
          antinu := stepParticle dt (antinu (current s)),
          timeAlive := timeAlive (current s) + dt\<rparr>"
  by (simp add: advance_def Let_def)

lemma advance_expiry:
  "0 < dt \<Longrightarrow> duration (current s) \<le> timeAlive (current s) + dt \<Longrightarrow>
     rng (advance dt s) = (\<lambda>n. rng s (Suc n))
     \<and> current (advance dt s) = (makeEvent (rng s 0) origin (leftHandBias s) (mode s))\<lparr>
          electron := stepParticle dt (electron (makeEvent (rng s 0) origin (leftHandBias s) (mode s))),
          antinu := stepParticle dt (antinu (makeEvent (rng s 0) origin (leftHandBias s) (mode s)))\<rparr>"
  by (simp add: advance_def Let_def respawn_def)

lemma frame_after_N:
  "paused s \<Longrightarrow> frame dtReal [] (s\<lparr>stepOnce := True\<rparr>) =
     advance (1 / 60) (s\<lparr>stepOnce := False, t_acc := t_acc s + 1 / 60\<rparr>)"
  by (simp add: frame_def beginFrame_def frameDt_def Let_def)

lemma frame_idle:
  "paused s \<Longrightarrow> \<not> stepOnce s \<Longrightarrow> frame dtReal [] s = s"
  by (simp add: frame_def beginFrame_def frameDt_def Let_def advance_zero)

lemma frame_with_N:
  "paused s \<Longrightarrow> \<not> stepOnce s \<Longrightarrow> frame dtReal [KeyPressed N] s = s\<lparr>stepOnce := True\<rparr>"
  by (simp add: frame_def beginFrame_def frameDt_def Let_def advance_zero handle_N)

lemma initSim_fields:
  "paused (initSim g) = False" "stepOnce (initSim g) = False" "t_acc (initSim g) = 0"
  "mode (initSim g) = SpinOnly" "leftHandBias (initSim g) = 85 / 100"
  "current (initSim g) = makeEvent (g 0) origin (85 / 100) SpinOnly"
  "rng (initSim g) = (\<lambda>n. g (Suc n))"
  by (simp_all add: initSim_def respawn_def)

lemma frame_with_P:
  "\<not> paused s \<Longrightarrow> frame dtReal [KeyPressed P] s =
     advance dtReal (s\<lparr>t_acc := t_acc s + dtReal, paused := True\<rparr>)"
  by (simp add: frame_def beginFrame_def frameDt_def Let_def handleEvent_def)

lemma advance_keep:
  "0 < dt \<Longrightarrow> timeAlive (current s) + dt < duration (current s) \<Longrightarrow>
     advance dt s = s\<lparr>current := (current s)\<lparr>
          timeAlive := timeAlive (current s) + dt,
          electron := stepParticle dt (electron (current s)),
          antinu := stepParticle dt (antinu (current s))\<rparr>\<rparr>"
  by (simp add: advance_def Let_def)

lemma advance_replace:
  "0 < dt \<Longrightarrow> duration (current s) \<le> timeAlive (current s) + dt \<Longrightarrow>
     advance dt s = s\<lparr>current := (makeEvent (rng s 0) origin (leftHandBias s) (mode s))\<lparr>
          electron := stepParticle dt (electron (makeEvent (rng s 0) origin (leftHandBias s) (mode s))),
          antinu := stepParticle dt (antinu (makeEvent (rng s 0) origin (leftHandBias s) (mode s)))\<rparr>,
        rng := (\<lambda>n. rng s (Suc n))\<rparr>"
  by (simp add: advance_def Let_def respawn_def)

text \<open>
  Claim C7, as stated, fails in its clause on regeneration: the tick of a single step is
  an ordinary tick, and it replaces the event once \<open>timeAlive + 1/60\<close> reaches
  \<open>duration\<close>. From the initial state, a frame of 2.99 s in which \<open>P\<close> is pressed
  leaves the simulation paused with an event 2.99 s old (proton sign \<open>+1\<close>); \<open>N\<close> in
  the next frame and the stepping frame after it leave a fresh event (age 0, drawn from
  the generator's next draws, proton sign \<open>-1\<close>, stepped by 1/60 s from the origin).
\<close>

theorem single_step_regenerates_counterexample:
  "paused (frame (299 / 100) [KeyPressed P] (initSim sampleRng))
   \<and> timeAlive (current (frame (299 / 100) [KeyPressed P] (initSim sampleRng))) = 299 / 100
   \<and> protonSpinSign (current (frame (299 / 100) [KeyPressed P] (initSim sampleRng))) = 1
   \<and> stepOnce (frame 0 [KeyPressed N] (frame (299 / 100) [KeyPressed P] (initSim sampleRng)))
   \<and> current (frame 0 [KeyPressed N] (frame (299 / 100) [KeyPressed P] (initSim sampleRng)))
       = current (frame (299 / 100) [KeyPressed P] (initSim sampleRng))
   \<and> paused (frame 0 [] (frame 0 [KeyPressed N]
        (frame (299 / 100) [KeyPressed P] (initSim sampleRng))))
   \<and> timeAlive (current (frame 0 [] (frame 0 [KeyPressed N]
        (frame (299 / 100) [KeyPressed P] (initSim sampleRng))))) = 0
   \<and> protonSpinSign (current (frame 0 [] (frame 0 [KeyPressed N]
        (frame (299 / 100) [KeyPressed P] (initSim sampleRng))))) = - 1
   \<and> trail (electron (current (frame 0 [] (frame 0 [KeyPressed N]
        (frame (299 / 100) [KeyPressed P] (initSim sampleRng)))))) = []"
proof -
  let ?s0 = "initSim sampleRng"
  let ?sA = "frame (299 / 100) [KeyPressed P] ?s0"
  let ?sB = "frame 0 [KeyPressed N] ?sA"
  let ?sC = "frame 0 [] ?sB"
  let ?pre = "?s0\<lparr>t_acc := t_acc ?s0 + 299 / 100, paused := True\<rparr>"
  have fA: "?sA = advance (299 / 100) ?pre"
    by (rule frame_with_P) (simp add: initSim_fields)
  have tpre: "timeAlive (current ?pre) + 299 / 100 < duration (current ?pre)"
    by (simp add: initSim_fields makeEvent_time)
  have pos: "(0::real) < 299 / 100" by simp
  have kA: "?sA = ?pre\<lparr>current := (current ?pre)\<lparr>
          timeAlive := timeAlive (current ?pre) + 299 / 100,
          electron := stepParticle (299 / 100) (electron (current ?pre)),
          antinu := stepParticle (299 / 100) (antinu (current ?pre))\<rparr>\<rparr>"
    by (simp only: fA advance_keep [OF pos tpre])
  have a1: "paused ?sA" by (simp add: kA)
  have a2: "\<not> stepOnce ?sA" by (simp add: kA initSim_fields)
  have a3: "timeAlive (current ?sA) = 299 / 100"
    by (simp add: kA initSim_fields makeEvent_time)
  have a4: "protonSpinSign (current ?sA) = 1"
    by (simp add: kA initSim_fields makeEvent_signs sampleRng_def)
  have a5: "duration (current ?sA) = 3"
    by (simp add: kA initSim_fields makeEvent_time)
  have a6: "rng ?sA 0 = sampleRng 1" "leftHandBias ?sA = 85 / 100" "mode ?sA = SpinOnly"
    by (simp_all add: kA initSim_fields)
  have fB: "?sB = ?sA\<lparr>stepOnce := True\<rparr>"
    by (rule frame_with_N [OF a1 a2])
  have b1: "stepOnce ?sB" "current ?sB = current ?sA" by (simp_all add: fB)
  have fC: "?sC = advance (1 / 60) (?sA\<lparr>stepOnce := False, t_acc := t_acc ?sA + 1 / 60\<rparr>)"
    by (simp only: fB frame_after_N [OF a1])
  let ?mid = "?sA\<lparr>stepOnce := False, t_acc := t_acc ?sA + 1 / 60\<rparr>"
  have exp: "duration (current ?mid) \<le> timeAlive (current ?mid) + 1 / 60"
    by (simp add: a3 a5)
  have pos': "(0::real) < 1 / 60" by simp
  have kC: "?sC = ?mid\<lparr>current := (makeEvent (rng ?mid 0) origin (leftHandBias ?mid) (mode ?mid))\<lparr>
          electron := stepParticle (1 / 60)
            (electron (makeEvent (rng ?mid 0) origin (leftHandBias ?mid) (mode ?mid))),
          antinu := stepParticle (1 / 60)
            (antinu (makeEvent (rng ?mid 0) origin (leftHandBias ?mid) (mode ?mid)))\<rparr>,
        rng := (\<lambda>n. rng ?mid (Suc n))\<rparr>"
    by (simp only: fC advance_replace [OF pos' exp])
  have c1: "paused ?sC" by (simp add: kC a1)
  have c2: "timeAlive (current ?sC) = 0" by (simp add: kC makeEvent_time)
  have c3: "protonSpinSign (current ?sC) = - 1"
    by (simp add: kC makeEvent_signs a6 sampleRng_def)
  have c4: "trail (electron (current ?sC)) = []"
    by (simp add: kC step_trail fresh_particles)
  from a1 a3 a4 b1 c1 c2 c3 c4 show ?thesis by (intro conjI)
qed

text \<open>
  Claim C7, amended. While the simulation is paused, the single-step key \<open>N\<close> only sets
  \<open>stepOnce\<close>: the key press changes neither the event nor the generator nor the clock.
  The next frame then runs with \<open>dt = 1/60\<close> whatever the wall-clock delta and is one
  ordinary tick of 1/60 s: the clock advances by exactly 1/60, and the event is kept, its
  age advanced by 1/60 and both particles integrated by 1/60, unless its age would reach
  \<open>duration\<close>, in which case the tick replaces it by a freshly generated event (itself
  integrated by 1/60), as every tick does. Afterwards the simulation is still paused,
  \<open>stepOnce\<close> is clear, and further frames have \<open>dt = 0\<close> and change nothing. When the
  simulation is not paused the key has no effect.
\<close>

theorem single_step_one_tick:
  "(paused s \<longrightarrow>
      (let s1 = handleEvent (KeyPressed N) s; s2 = frame dtReal [] s1 in
         s1 = s\<lparr>stepOnce := True\<rparr>
         \<and> current s1 = current s \<and> rng s1 = rng s \<and> t_acc s1 = t_acc s \<and> paused s1
         \<and> (\<not> stepOnce s \<longrightarrow> frame dtReal0 [KeyPressed N] s = s1)
         \<and> frameDt dtReal s1 = 1 / 60
         \<and> s2 = advance (1 / 60) (s\<lparr>stepOnce := False, t_acc := t_acc s + 1 / 60\<rparr>)
         \<and> t_acc s2 = t_acc s + 1 / 60 \<and> paused s2 \<and> \<not> stepOnce s2
         \<and> (timeAlive (current s) + 1 / 60 < duration (current s) \<longrightarrow>
               s2 = s\<lparr>stepOnce := False, t_acc := t_acc s + 1 / 60,
                      current := (current s)\<lparr>
                        timeAlive := timeAlive (current s) + 1 / 60,
                        electron := stepParticle (1 / 60) (electron (current s)),
                        antinu := stepParticle (1 / 60) (antinu (current s))\<rparr>\<rparr>)
         \<and> (duration (current s) \<le> timeAlive (current s) + 1 / 60 \<longrightarrow>
               s2 = s\<lparr>stepOnce := False, t_acc := t_acc s + 1 / 60,
                      current := (makeEvent (rng s 0) origin (leftHandBias s) (mode s))\<lparr>
                        electron := stepParticle (1 / 60)
                          (electron (makeEvent (rng s 0) origin (leftHandBias s) (mode s))),
                        antinu := stepParticle (1 / 60)
                          (antinu (makeEvent (rng s 0) origin (leftHandBias s) (mode s)))\<rparr>,
                      rng := (\<lambda>n. rng s (Suc n))\<rparr>)
         \<and> frameDt dtReal' s2 = 0 \<and> frame dtReal' [] s2 = s2))
   \<and> (\<not> paused s \<longrightarrow> handleEvent (KeyPressed N) s = s)"
proof (intro conjI impI)
  assume p: "paused s"
  let ?s1 = "handleEvent (KeyPressed N) s"
  let ?s2 = "frame dtReal [] ?s1"
  let ?mid = "s\<lparr>stepOnce := False, t_acc := t_acc s + 1 / 60\<rparr>"
  have pos: "(0::real) < 1 / 60" by simp
  have a: "?s1 = s\<lparr>stepOnce := True\<rparr>" using p by (simp add: handle_N)
  have b: "?s2 = advance (1 / 60) ?mid"
    using p by (simp only: a frame_after_N)
  have c: "paused ?s2" "\<not> stepOnce ?s2" "t_acc ?s2 = t_acc s + 1 / 60"
    using p by (simp_all add: b advance_flags)
  have d: "frameDt dtReal' ?s2 = 0" using c by (simp add: frameDt_def)
  have e: "frame dtReal' [] ?s2 = ?s2" by (rule frame_idle [OF c(1) c(2)])
  have f: "frameDt dtReal ?s1 = 1 / 60" using p by (simp add: a frameDt_def)
  have g: "current ?s1 = current s" "rng ?s1 = rng s" "t_acc ?s1 = t_acc s" "paused ?s1"
    using p by (simp_all add: a)
  have h: "\<not> stepOnce s \<longrightarrow> frame dtReal0 [KeyPressed N] s = ?s1"
    using p by (simp add: a frame_with_N)
  have k: "timeAlive (current s) + 1 / 60 < duration (current s) \<longrightarrow>
               ?s2 = s\<lparr>stepOnce := False, t_acc := t_acc s + 1 / 60,
                      current := (current s)\<lparr>
                        timeAlive := timeAlive (current s) + 1 / 60,
                        electron := stepParticle (1 / 60) (electron (current s)),
                        antinu := stepParticle (1 / 60) (antinu (current s))\<rparr>\<rparr>"
  proof
    assume "timeAlive (current s) + 1 / 60 < duration (current s)"
    then have "timeAlive (current ?mid) + 1 / 60 < duration (current ?mid)" by simp
    from advance_keep [OF pos this] show "?s2 = s\<lparr>stepOnce := False, t_acc := t_acc s + 1 / 60,
                      current := (current s)\<lparr>
                        timeAlive := timeAlive (current s) + 1 / 60,
                        electron := stepParticle (1 / 60) (electron (current s)),
                        antinu := stepParticle (1 / 60) (antinu (current s))\<rparr>\<rparr>"
      by (simp add: b)
  qed
  have l: "duration (current s) \<le> timeAlive (current s) + 1 / 60 \<longrightarrow>
               ?s2 = s\<lparr>stepOnce := False, t_acc := t_acc s + 1 / 60,
                      current := (makeEvent (rng s 0) origin (leftHandBias s) (mode s))\<lparr>
                        electron := stepParticle (1 / 60)
                          (electron (makeEvent (rng s 0) origin (leftHandBias s) (mode s))),
                        antinu := stepParticle (1 / 60)
                          (antinu (makeEvent (rng s 0) origin (leftHandBias s) (mode s)))\<rparr>,
                      rng := (\<lambda>n. rng s (Suc n))\<rparr>"
  proof
    assume "duration (current s) \<le> timeAlive (current s) + 1 / 60"
    then have "duration (current ?mid) \<le> timeAlive (current ?mid) + 1 / 60" by simp
    from advance_replace [OF pos this] show "?s2 = s\<lparr>stepOnce := False, t_acc := t_acc s + 1 / 60,
                      current := (makeEvent (rng s 0) origin (leftHandBias s) (mode s))\<lparr>
                        electron := stepParticle (1 / 60)
                          (electron (makeEvent (rng s 0) origin (leftHandBias s) (mode s))),
                        antinu := stepParticle (1 / 60)
                          (antinu (makeEvent (rng s 0) origin (leftHandBias s) (mode s)))\<rparr>,
                      rng := (\<lambda>n. rng s (Suc n))\<rparr>"
      by (simp add: b)
  qed
  from a b c d e f g h k l
  show "let s1 = handleEvent (KeyPressed N) s; s2 = frame dtReal [] s1 in
         s1 = s\<lparr>stepOnce := True\<rparr>
         \<and> current s1 = current s \<and> rng s1 = rng s \<and> t_acc s1 = t_acc s \<and> paused s1
         \<and> (\<not> stepOnce s \<longrightarrow> frame dtReal0 [KeyPressed N] s = s1)
         \<and> frameDt dtReal s1 = 1 / 60
         \<and> s2 = advance (1 / 60) (s\<lparr>stepOnce := False, t_acc := t_acc s + 1 / 60\<rparr>)
         \<and> t_acc s2 = t_acc s + 1 / 60 \<and> paused s2 \<and> \<not> stepOnce s2
         \<and> (timeAlive (current s) + 1 / 60 < duration (current s) \<longrightarrow>
               s2 = s\<lparr>stepOnce := False, t_acc := t_acc s + 1 / 60,
                      current := (current s)\<lparr>
                        timeAlive := timeAlive (current s) + 1 / 60,
                        electron := stepParticle (1 / 60) (electron (current s)),
                        antinu := stepParticle (1 / 60) (antinu (current s))\<rparr>\<rparr>)
         \<and> (duration (current s) \<le> timeAlive (current s) + 1 / 60 \<longrightarrow>
               s2 = s\<lparr>stepOnce := False, t_acc := t_acc s + 1 / 60,
                      current := (makeEvent (rng s 0) origin (leftHandBias s) (mode s))\<lparr>
                        electron := stepParticle (1 / 60)
                          (electron (makeEvent (rng s 0) origin (leftHandBias s) (mode s))),
                        antinu := stepParticle (1 / 60)
                          (antinu (makeEvent (rng s 0) origin (leftHandBias s) (mode s)))\<rparr>,
                      rng := (\<lambda>n. rng s (Suc n))\<rparr>)
         \<and> frameDt dtReal' s2 = 0 \<and> frame dtReal' [] s2 = s2"
    unfolding Let_def by (intro conjI)
next
  assume "\<not> paused s"
  then show "handleEvent (KeyPressed N) s = s" by (simp add: handle_N)
qed

theorem single_step_one_tick_witness:
  "paused ((initSim sampleRng)\<lparr>paused := True\<rparr>)
   \<and> \<not> stepOnce ((initSim sampleRng)\<lparr>paused := True\<rparr>)
   \<and> t_acc ((initSim sampleRng)\<lparr>paused := True\<rparr>) = 0
   \<and> timeAlive (current ((initSim sampleRng)\<lparr>paused := True\<rparr>)) + 1 / 60
       < duration (current ((initSim sampleRng)\<lparr>paused := True\<rparr>))
   \<and> stepOnce (frame (1 / 2) [KeyPressed N] ((initSim sampleRng)\<lparr>paused := True\<rparr>))
   \<and> t_acc (frame (1 / 2) [] (frame (1 / 2) [KeyPressed N]
         ((initSim sampleRng)\<lparr>paused := True\<rparr>))) = 1 / 60
   \<and> paused (frame (1 / 2) [] (frame (1 / 2) [KeyPressed N]
         ((initSim sampleRng)\<lparr>paused := True\<rparr>)))
   \<and> timeAlive (current (frame (1 / 2) [] (frame (1 / 2) [KeyPressed N]
         ((initSim sampleRng)\<lparr>paused := True\<rparr>)))) = 1 / 60
   \<and> vx (pos (electron (current (frame (1 / 2) [] (frame (1 / 2) [KeyPressed N]
         ((initSim sampleRng)\<lparr>paused := True\<rparr>)))))) = 200 + 260 / 60
   \<and> protonSpinSign (current (frame (1 / 2) [] (frame (1 / 2) [KeyPressed N]
         ((initSim sampleRng)\<lparr>paused := True\<rparr>)))) = 1
   \<and> duration (current ((initSim sampleRng)\<lparr>paused := True,
         current := (current (initSim sampleRng))\<lparr>timeAlive := 299 / 100\<rparr>\<rparr>))
       \<le> timeAlive (current ((initSim sampleRng)\<lparr>paused := True,
         current := (current (initSim sampleRng))\<lparr>timeAlive := 299 / 100\<rparr>\<rparr>)) + 1 / 60
   \<and> timeAlive (current (frame (1 / 2) [] (handleEvent (KeyPressed N)
         ((initSim sampleRng)\<lparr>paused := True,
            current := (current (initSim sampleRng))\<lparr>timeAlive := 299 / 100\<rparr>\<rparr>)))) = 0
   \<and> protonSpinSign (current (frame (1 / 2) [] (handleEvent (KeyPressed N)
         ((initSim sampleRng)\<lparr>paused := True,
            current := (current (initSim sampleRng))\<lparr>timeAlive := 299 / 100\<rparr>\<rparr>)))) = - 1
   \<and> \<not> paused (initSim sampleRng)
   \<and> handleEvent (KeyPressed N) (initSim sampleRng) = initSim sampleRng"
proof -
  let ?i = "initSim sampleRng"
  let ?s = "?i\<lparr>paused := True\<rparr>"
  let ?o = "?i\<lparr>paused := True, current := (current ?i)\<lparr>timeAlive := 299 / 100\<rparr>\<rparr>"
  have h1: "paused ?s" by simp
  have h2: "\<not> paused ?i" by (simp add: initSim_fields)
  have h3: "\<not> stepOnce ?s" by (simp add: initSim_fields)
  have t0: "t_acc ?s = 0" by (simp add: initSim_fields)
  have h4: "timeAlive (current ?s) + 1 / 60 < duration (current ?s)"
    by (simp add: initSim_fields makeEvent_time)
  let ?s1 = "handleEvent (KeyPressed N) ?s"
  from single_step_one_tick [of ?s "1 / 2" "1 / 2" 0] h1 h3 h4
  have a: "?s1 = ?s\<lparr>stepOnce := True\<rparr>"
    and k: "frame (1 / 2) [KeyPressed N] ?s = ?s1"
    and b: "t_acc (frame (1 / 2) [] ?s1) = t_acc ?s + 1 / 60"
    and c: "paused (frame (1 / 2) [] ?s1)"
    and v: "frame (1 / 2) [] ?s1 = ?s\<lparr>stepOnce := False, t_acc := t_acc ?s + 1 / 60,
                      current := (current ?s)\<lparr>
                        timeAlive := timeAlive (current ?s) + 1 / 60,
                        electron := stepParticle (1 / 60) (electron (current ?s)),
                        antinu := stepParticle (1 / 60) (antinu (current ?s))\<rparr>\<rparr>"
    unfolding Let_def by blast+
  have a': "stepOnce (frame (1 / 2) [KeyPressed N] ?s)" by (simp add: k a)
  have b': "t_acc (frame (1 / 2) [] (frame (1 / 2) [KeyPressed N] ?s)) = 1 / 60"
    by (simp add: k b t0)
  have c': "paused (frame (1 / 2) [] (frame (1 / 2) [KeyPressed N] ?s))"
    using c by (simp only: k)
  have pos60: "(0::real) < 1 / 60" by simp
  have v1: "timeAlive (current (frame (1 / 2) [] (frame (1 / 2) [KeyPressed N] ?s))) = 1 / 60"
    by (simp add: k v initSim_fields makeEvent_time)
  have v2: "vx (pos (electron (current (frame (1 / 2) [] (frame (1 / 2) [KeyPressed N] ?s)))))
      = 200 + 260 / 60"
    by (simp add: k v initSim_fields step_x [OF pos60] fresh_particles vel_electron
        origin_value vscale_def sampleRng_def)
  have v3: "protonSpinSign (current (frame (1 / 2) [] (frame (1 / 2) [KeyPressed N] ?s))) = 1"
    by (simp add: k v initSim_fields makeEvent_signs sampleRng_def)
  have o1: "paused ?o" by simp
  have o2: "duration (current ?o) \<le> timeAlive (current ?o) + 1 / 60"
    by (simp add: initSim_fields makeEvent_time)
  from single_step_one_tick [of ?o "1 / 2" 0 0] o1 o2
  have w: "frame (1 / 2) [] (handleEvent (KeyPressed N) ?o) =
      ?o\<lparr>stepOnce := False, t_acc := t_acc ?o + 1 / 60,
          current := (makeEvent (rng ?o 0) origin (leftHandBias ?o) (mode ?o))\<lparr>
            electron := stepParticle (1 / 60)
              (electron (makeEvent (rng ?o 0) origin (leftHandBias ?o) (mode ?o))),
            antinu := stepParticle (1 / 60)
              (antinu (makeEvent (rng ?o 0) origin (leftHandBias ?o) (mode ?o)))\<rparr>,
          rng := (\<lambda>n. rng ?o (Suc n))\<rparr>"
    unfolding Let_def by blast
  have w1: "timeAlive (current (frame (1 / 2) [] (handleEvent (KeyPressed N) ?o))) = 0"
    by (simp only: w) (simp add: makeEvent_time)
  have w2: "protonSpinSign (current (frame (1 / 2) [] (handleEvent (KeyPressed N) ?o))) = - 1"
    by (simp only: w) (simp add: makeEvent_signs initSim_fields sampleRng_def)
  from single_step_one_tick [of ?i 0 0 0] h2
  have d: "handleEvent (KeyPressed N) ?i = ?i" by blast
  from h1 h3 t0 h4 a' b' c' v1 v2 v3 o2 w1 w2 h2 d show ?thesis by (intro conjI)
qed

end
